theory Spec2Isabelle
  imports
    Complex_Main
    "HOL-Library.AList"
    "HOL-Library.Char_ord"
    "HOL-Library.List_Lexorder"
    "HOL-Library.Product_Lexorder"
    "HOL-Library.Multiset"
begin

section \<open>Tables\<close>

text \<open>
  The scripts of this repository work on pandas tables. A table is modelled as its list
  of column labels and its list of rows, in table order; a row is its index label and a
  dictionary from column label to cell. A cell of a column of whole numbers
  (\<open>int64\<close>) is \<open>I64\<close>, a cell of a floating-point column (\<open>float64\<close>) is \<open>Num\<close> (an
  exact rational: the rounding of binary floating point is outside this model), a
  missing value (NaN, NaT, None) is \<open>NA\<close>, and a timestamp is its number of
  nanoseconds since the epoch, as in \<open>datetime64[ns]\<close>.
\<close>

type_synonym timestamp = int

datatype cell = NA | I64 int | Num rat | Str string | Time timestamp

record row =
  idx :: cell
  cells :: "(string \<times> cell) list"

record frame =
  columns :: "string list"
  rows :: "row list"

datatype py_error =
    KeyError string
  | TypeError
  | ValueError
  | ZeroDivisionError
  | EOFError
  | OSError
  | NameError string
  | SyntaxError

text \<open>\<open>pd.DataFrame()\<close>: no column, no row.\<close>

definition empty_frame :: frame where
  "empty_frame = \<lparr>columns = [], rows = []\<rparr>"

text \<open>\<open>df.empty\<close>: some axis has length zero.\<close>

definition is_empty :: "frame \<Rightarrow> bool" where
  "is_empty df = (columns df = [] \<or> rows df = [])"

text \<open>The cell of a row under a column; a column the row does not have reads as missing.\<close>

definition cellv :: "row \<Rightarrow> string \<Rightarrow> cell" where
  "cellv r c = (case map_of (cells r) c of Some v \<Rightarrow> v | None \<Rightarrow> NA)"

text \<open>\<open>df[c]\<close>: the cells of a column, in table order.\<close>

definition column :: "string \<Rightarrow> row list \<Rightarrow> cell list" where
  "column c rs = map (\<lambda>r. cellv r c) rs"

text \<open>\<open>df[c] = ...\<close> with the new cell of every row given; a new column goes last.\<close>

definition assign :: "string \<Rightarrow> (row \<Rightarrow> cell) \<Rightarrow> frame \<Rightarrow> frame" where
  "assign c f df =
     \<lparr>columns = (if c \<in> set (columns df) then columns df else columns df @ [c]),
      rows = map (\<lambda>r. r\<lparr>cells := AList.update c (f r) (cells r)\<rparr>) (rows df)\<rparr>"

text \<open>\<open>df.dropna(subset=[c])\<close>.\<close>

definition dropna :: "string \<Rightarrow> frame \<Rightarrow> frame" where
  "dropna c df = df\<lparr>rows := filter (\<lambda>r. cellv r c \<noteq> NA) (rows df)\<rparr>"

subsection \<open>Number types of a column\<close>

text \<open>
  A column of numbers has one type. It is \<open>int64\<close> when every cell is a whole number;
  a column that holds numbers and is not \<open>int64\<close> (a fraction or a missing value is in
  it) is \<open>float64\<close>, and its whole numbers are floating-point numbers too. A column
  with a text or a timestamp in it keeps its cells as they are.
\<close>

fun is_int :: "cell \<Rightarrow> bool" where
  "is_int (I64 _) = True"
| "is_int _ = False"

fun is_number :: "cell \<Rightarrow> bool" where
  "is_number (I64 _) = True"
| "is_number (Num _) = True"
| "is_number NA = True"
| "is_number _ = False"

fun as_float :: "cell \<Rightarrow> cell" where
  "as_float (I64 i) = Num (of_int i)"
| "as_float x = x"

definition floating :: "cell list \<Rightarrow> bool" where
  "floating cs = (\<not> list_all is_int cs \<and> list_all is_number cs)"

definition in_column_type :: "cell list \<Rightarrow> cell \<Rightarrow> cell" where
  "in_column_type cs x = (if floating cs then as_float x else x)"

text \<open>The number a cell holds.\<close>

fun numval :: "cell \<Rightarrow> rat option" where
  "numval (I64 i) = Some (of_int i)"
| "numval (Num q) = Some q"
| "numval _ = None"

text \<open>
  \<open>int64\<close> arithmetic wraps around: the result of an addition is the representative
  of the exact result modulo \<open>2 ^ 64\<close> between \<open>- 2 ^ 63\<close> and \<open>2 ^ 63 - 1\<close>.
\<close>

definition wrap64 :: "int \<Rightarrow> int" where
  "wrap64 x = (x + 2 ^ 63) mod 2 ^ 64 - 2 ^ 63"

subsection \<open>The library\<close>

text \<open>
  What pandas and numpy do that this model takes as given:
  \<^item> \<open>guess_format\<close>: the format \<open>pd.to_datetime\<close> infers from one text, if any;
  \<^item> \<open>strptime\<close>: the timestamp of a text under a format, \<open>None\<close> when the text does
    not match it;
  \<^item> \<open>dateutil\<close>: the timestamp of a text parsed on its own, \<open>None\<close> when it does
    not parse;
  \<^item> \<open>parse_number\<close>: what \<open>pd.to_numeric\<close> makes of one text: a whole number, a
    floating-point number, or nothing;
  \<^item> \<open>quicksort\<close>: numpy's default sort, by a key, of an array of more than 16
    elements; it need not keep elements with equal keys in their order;
  \<^item> \<open>concat_raises\<close>: the exception that \<open>pd.concat\<close>, \<open>set_index\<close> or
    \<open>pd.to_numeric\<close> raise on a list of tables, if they raise.
\<close>

record lib =
  guess_format :: "string \<Rightarrow> string option"
  strptime :: "string \<Rightarrow> string \<Rightarrow> timestamp option"
  dateutil :: "string \<Rightarrow> timestamp option"
  parse_number :: "string \<Rightarrow> cell"
  quicksort :: "(row \<Rightarrow> nat \<times> rat \<times> string) \<Rightarrow> row list \<Rightarrow> row list"
  concat_raises :: "frame list \<Rightarrow> py_error option"

subsection \<open>Sorting\<close>

text \<open>
  The order pandas sorts cells in: numbers (and timestamps) by value, before text in
  code-point order, before missing values.
\<close>

fun cell_rank :: "cell \<Rightarrow> nat \<times> rat \<times> string" where
  "cell_rank (I64 i) = (0, of_int i, [])"
| "cell_rank (Num n) = (0, n, [])"
| "cell_rank (Time t) = (0, of_int t, [])"
| "cell_rank (Str s) = (1, 0, s)"
| "cell_rank NA = (2, 0, [])"

text \<open>
  numpy's \<open>argsort(kind='quicksort')\<close>: an insertion sort, which is stable, on an array
  of up to 16 elements, and the library's sort on a longer one.
\<close>

definition np_sort :: "lib \<Rightarrow> (row \<Rightarrow> nat \<times> rat \<times> string) \<Rightarrow> row list \<Rightarrow> row list" where
  "np_sort L key rs = (if length rs \<le> 16 then sort_key key rs else quicksort L key rs)"

text \<open>
  \<open>df.sort_values(c, ascending=asc)\<close>, missing values last. Ascending is a sort by the
  key; descending is pandas' \<open>nargsort\<close>: the non-missing rows are reversed, sorted
  ascending and reversed again.
\<close>

definition sort_values :: "lib \<Rightarrow> string \<Rightarrow> bool \<Rightarrow> frame \<Rightarrow> frame" where
  "sort_values L c asc df =
     (let key = (\<lambda>r. cell_rank (cellv r c));
          present = filter (\<lambda>r. cellv r c \<noteq> NA) (rows df);
          missing = filter (\<lambda>r. cellv r c = NA) (rows df)
      in df\<lparr>rows := (if asc then np_sort L key present
                       else rev (np_sort L key (rev present))) @ missing\<rparr>)"

subsection \<open>Concatenation and the index\<close>

text \<open>The distinct elements of a list, in order of first appearance.\<close>

definition uniq :: "'a list \<Rightarrow> 'a list" where
  "uniq xs = rev (remdups (rev xs))"

text \<open>
  \<open>pd.concat(dfs, ignore_index=True)\<close>: the columns are the union of the tables'
  columns in order of first appearance, the rows follow each other, a cell of a column
  that a row's table did not have is missing, every column gets one type, and the index
  is renumbered from 0.
\<close>

definition concat_frames :: "frame list \<Rightarrow> frame" where
  "concat_frames dfs =
     (let cols = uniq (concat (map columns dfs));
          rs = concat (map rows dfs)
      in \<lparr>columns = cols,
          rows = map (\<lambda>(i, r). \<lparr>idx = I64 (int i),
                                  cells = map (\<lambda>c. (c, in_column_type (column c rs) (cellv r c))) cols\<rparr>)
                   (zip [0..<length rs] rs)\<rparr>)"

text \<open>\<open>df.set_index(c)\<close>: the column becomes the index and leaves the columns.\<close>

definition set_index :: "string \<Rightarrow> frame \<Rightarrow> frame" where
  "set_index c df =
     \<lparr>columns = removeAll c (columns df),
      rows = map (\<lambda>r. \<lparr>idx = cellv r c, cells = AList.delete c (cells r)\<rparr>) (rows df)\<rparr>"

subsection \<open>Conversions\<close>

text \<open>
  \<open>pd.to_datetime(column, errors='coerce')\<close>. The column is parsed as a whole: the
  format is inferred from the first value that is not missing (an empty text, a text for
  NaT, \<open>now\<close> and \<open>today\<close> are passed over), and every text of the column is then
  parsed under that one format, a text that does not match it becoming NaT. Only when
  no format can be inferred, or the first value is not a text, is every value parsed on
  its own. A number is read as nanoseconds since the epoch.
\<close>

definition null_texts :: "string list" where
  "null_texts = ['''', ''NaT'', ''nat'', ''NAT'', ''nan'', ''NaN'', ''NAN'', ''now'', ''today'']"

fun is_null :: "cell \<Rightarrow> bool" where
  "is_null NA = True"
| "is_null (Str s) = (s \<in> set null_texts)"
| "is_null _ = False"

datatype parse_mode = ByFormat string | OneByOne

definition column_mode :: "lib \<Rightarrow> cell list \<Rightarrow> parse_mode" where
  "column_mode L cs =
     (case filter (\<lambda>x. \<not> is_null x) cs of
        Str s # _ \<Rightarrow> (case guess_format L s of Some f \<Rightarrow> ByFormat f | None \<Rightarrow> OneByOne)
      | _ \<Rightarrow> OneByOne)"

fun parse_cell :: "lib \<Rightarrow> parse_mode \<Rightarrow> cell \<Rightarrow> cell" where
  "parse_cell L (ByFormat f) (Str s) = (case strptime L f s of Some t \<Rightarrow> Time t | None \<Rightarrow> NA)"
| "parse_cell L OneByOne (Str s) = (case dateutil L s of Some t \<Rightarrow> Time t | None \<Rightarrow> NA)"
| "parse_cell L m (I64 i) = Time i"
| "parse_cell L m (Num n) = Time \<lfloor>n\<rfloor>"
| "parse_cell L m (Time t) = Time t"
| "parse_cell L m NA = NA"

definition to_datetime :: "lib \<Rightarrow> cell list \<Rightarrow> cell \<Rightarrow> cell" where
  "to_datetime L cs x = parse_cell L (column_mode L cs) x"

text \<open>
  \<open>pd.to_numeric(column, errors='coerce')\<close>: every cell is converted on its own, what
  does not convert becomes missing, and the column gets one type.
\<close>

fun convert_cell :: "lib \<Rightarrow> cell \<Rightarrow> cell" where
  "convert_cell L (Str s) = (case parse_number L s of I64 i \<Rightarrow> I64 i | Num n \<Rightarrow> Num n | _ \<Rightarrow> NA)"
| "convert_cell L (I64 i) = I64 i"
| "convert_cell L (Num n) = Num n"
| "convert_cell L (Time t) = I64 t"
| "convert_cell L NA = NA"

definition to_numeric :: "lib \<Rightarrow> cell list \<Rightarrow> cell \<Rightarrow> cell" where
  "to_numeric L cs x = in_column_type (map (convert_cell L) cs) (convert_cell L x)"

section \<open>Ingestion (energy\_dashboard.py)\<close>

text \<open>
  The logger is the one piece of state the module keeps between calls; a log is the
  list of the records written so far.
\<close>

datatype level = INFO | WARNING | ERROR

datatype event =
    DirMissing
  | NoCsvFiles
  | MissingColumn string string
  | Ingested string nat
  | FileNotFound string
  | ErrorReading string
  | NoValidData
  | EmptySummary
  | EmptyTrends
  | SummaryDone nat
  | TrendsDone nat

type_synonym log = "(level \<times> event) list"

text \<open>
  What the body of the \<open>try\<close> of lines 45 to 63 does on a file: it raises
  \<open>FileNotFoundError\<close>, it raises another exception (\<open>pd.read_csv\<close> on an I/O or a
  decoding error or on an empty file, or one of the calls of lines 59 to 61), or
  \<open>pd.read_csv(csv_file, on_bad_lines='skip')\<close> returns the parsed table and the
  calls after it return. A directory is the list of its entries, each with that outcome.
\<close>

datatype read_result = FileNotFoundError | OtherError | Parsed frame

type_synonym directory = "(string \<times> read_result) list"

text \<open>
  What \<open>data_dir\<close> is to lines 36 to 40, which are outside every \<open>try\<close>: a path that
  does not exist; a path on which \<open>exists()\<close> raises (the operating system refuses the
  \<open>stat\<close> for another reason than a missing entry: permission, a name too long); a
  directory whose listing by \<open>glob\<close> raises; or a directory that can be listed.
\<close>

datatype location = Missing | ProbeFails | ListingFails | Dir directory

text \<open>\<open>data_dir.glob("*.csv")\<close>, then \<open>sorted\<close>.\<close>

definition is_csv :: "string \<Rightarrow> bool" where
  "is_csv name = (4 \<le> length name \<and> drop (length name - 4) name = ''.csv'')"

definition csv_files :: "directory \<Rightarrow> directory" where
  "csv_files d = sort_key fst (filter (\<lambda>e. is_csv (fst e)) d)"

text \<open>Lines 58 to 61: the cleaning of one file that has the three columns.\<close>

definition clean_file :: "lib \<Rightarrow> frame \<Rightarrow> frame" where
  "clean_file L tb =
     sort_values L ''Timestamp'' True
       (dropna ''Timestamp''
         (assign ''Timestamp''
            (\<lambda>r. to_datetime L (column ''Timestamp'' (rows tb)) (cellv r ''Timestamp'')) tb))"

text \<open>
  The loop of lines 44 to 69 over the sorted files, with the list \<open>all_rows\<close> and the
  log as accumulators. Every exception raised in the body is caught and the loop goes on.
\<close>

fun ingest_loop :: "lib \<Rightarrow> directory \<Rightarrow> frame list \<Rightarrow> log \<Rightarrow> frame list \<times> log" where
  "ingest_loop L [] all_rows lg = (all_rows, lg)"
| "ingest_loop L ((name, res) # fs) all_rows lg =
     (case res of
        FileNotFoundError \<Rightarrow> ingest_loop L fs all_rows (lg @ [(ERROR, FileNotFound name)])
      | OtherError \<Rightarrow> ingest_loop L fs all_rows (lg @ [(ERROR, ErrorReading name)])
      | Parsed tb \<Rightarrow>
          if ''Timestamp'' \<notin> set (columns tb) then
            ingest_loop L fs all_rows (lg @ [(WARNING, MissingColumn ''Timestamp'' name)])
          else if ''Building'' \<notin> set (columns tb) then
            ingest_loop L fs all_rows (lg @ [(WARNING, MissingColumn ''Building'' name)])
          else if ''kWh'' \<notin> set (columns tb) then
            ingest_loop L fs all_rows (lg @ [(WARNING, MissingColumn ''kWh'' name)])
          else
            (let tb' = clean_file L tb
             in ingest_loop L fs (all_rows @ [tb'])
                  (lg @ [(INFO, Ingested name (length (rows tb')))])))"

text \<open>
  Lines 75 to 80, when the three library calls return: the concatenation, the index,
  the conversion of the \<open>kWh\<close> column and the removal of the rows it left missing.
\<close>

definition combine :: "lib \<Rightarrow> frame list \<Rightarrow> frame" where
  "combine L all_rows =
     (let c = set_index ''Timestamp'' (concat_frames all_rows)
      in dropna ''kWh''
           (assign ''kWh'' (\<lambda>r. to_numeric L (column ''kWh'' (rows c)) (cellv r ''kWh'')) c))"

text \<open>
  \<open>ingest_data\<close>, lines 24 to 82. It returns the table (and the log it leaves), or an
  exception leaves it: one raised by \<open>exists()\<close> or \<open>glob\<close>, or by a library call of
  lines 75 to 80. Those lines are outside the \<open>try\<close>.
\<close>

definition ingest_data :: "lib \<Rightarrow> location \<Rightarrow> log \<Rightarrow> py_error + frame \<times> log" where
  "ingest_data L data_dir lg =
     (case data_dir of
        ProbeFails \<Rightarrow> Inl OSError
      | Missing \<Rightarrow> Inr (empty_frame, lg @ [(ERROR, DirMissing)])
      | ListingFails \<Rightarrow> Inl OSError
      | Dir d \<Rightarrow>
          (let files = csv_files d;
               lg1 = (if files = [] then lg @ [(WARNING, NoCsvFiles)] else lg);
               (all_rows, lg2) = ingest_loop L files [] lg1
           in if all_rows = [] then Inr (empty_frame, lg2 @ [(WARNING, NoValidData)])
              else (case concat_raises L all_rows of
                      Some e \<Rightarrow> Inl e
                    | None \<Rightarrow> Inr (combine L all_rows, lg2))))"

section \<open>Aggregation (energy\_dashboard.py, class BuildingManager)\<close>

definition ns_per_hour :: int where
  "ns_per_hour = 3600000000000"

definition ns_per_day :: int where
  "ns_per_day = 24 * ns_per_hour"

text \<open>\<open>index.hour\<close>, the calendar day and the week (Monday to Sunday) of a timestamp.\<close>

definition hour_of :: "timestamp \<Rightarrow> int" where
  "hour_of t = (t div ns_per_hour) mod 24"

definition day_of :: "timestamp \<Rightarrow> int" where
  "day_of t = t div ns_per_day"

text \<open>
  Day 0, 1 January 1970, is a Thursday: the week of day \<open>d\<close> ends on the Sunday
  \<open>7 * ((d + 3) div 7) + 3\<close>, the label \<open>resample('W')\<close> gives its bucket.
\<close>

definition week_of :: "timestamp \<Rightarrow> int" where
  "week_of t = (day_of t + 3) div 7"

definition week_label :: "int \<Rightarrow> timestamp" where
  "week_label w = (7 * w + 3) * ns_per_day"

text \<open>The numbers of a column of some rows, missing values skipped (\<open>skipna\<close>).\<close>

definition num_vals :: "string \<Rightarrow> row list \<Rightarrow> rat list" where
  "num_vals c rs = concat (map (\<lambda>r. case numval (cellv r c) of Some v \<Rightarrow> [v] | None \<Rightarrow> []) rs)"

definition times :: "row list \<Rightarrow> timestamp list" where
  "times rs = concat (map (\<lambda>r. case idx r of Time t \<Rightarrow> [t] | _ \<Rightarrow> []) rs)"

text \<open>
  The aggregations \<open>'mean'\<close>, \<open>'min'\<close>, \<open>'max'\<close> and \<open>'sum'\<close> of pandas on the
  values of a group; \<open>int_typed\<close> says that the column the values come from is
  \<open>int64\<close>. The mean is computed in floating point. The least and the greatest value
  have the type of the column. The sum of an \<open>int64\<close> column is an \<open>int64\<close> sum: it
  wraps around.
\<close>

definition as_dtype :: "bool \<Rightarrow> rat \<Rightarrow> cell" where
  "as_dtype int_typed v = (if int_typed then I64 \<lfloor>v\<rfloor> else Num v)"

definition agg_mean :: "rat list \<Rightarrow> cell" where
  "agg_mean vs = (if vs = [] then NA else Num (sum_list vs / of_nat (length vs)))"

definition agg_min :: "bool \<Rightarrow> rat list \<Rightarrow> cell" where
  "agg_min int_typed vs = (case vs of [] \<Rightarrow> NA | v # ws \<Rightarrow> as_dtype int_typed (fold min ws v))"

definition agg_max :: "bool \<Rightarrow> rat list \<Rightarrow> cell" where
  "agg_max int_typed vs = (case vs of [] \<Rightarrow> NA | v # ws \<Rightarrow> as_dtype int_typed (fold max ws v))"

definition agg_sum :: "bool \<Rightarrow> rat list \<Rightarrow> cell" where
  "agg_sum int_typed vs =
     (if int_typed then I64 (wrap64 \<lfloor>sum_list vs\<rfloor>) else Num (sum_list vs))"

text \<open>
  \<open>df.groupby(c)\<close>: the group keys are the distinct non-missing cells of the column,
  sorted; the group of a key is its rows in table order.
\<close>

definition group_keys :: "string \<Rightarrow> row list \<Rightarrow> cell list" where
  "group_keys c rs = sort_key cell_rank (remdups (filter (\<lambda>k. k \<noteq> NA) (column c rs)))"

definition group_rows :: "string \<Rightarrow> cell \<Rightarrow> row list \<Rightarrow> row list" where
  "group_rows c k rs = filter (\<lambda>r. cellv r c = k) rs"

text \<open>
  What pandas checks before it aggregates: the columns exist (\<open>KeyError\<close> otherwise),
  the value column holds numbers or missing values, and (for \<open>resample\<close> and
  \<open>index.hour\<close>) the index holds timestamps. A table that ingestion returns passes all
  three; on another table the model raises at the first call that fails.
\<close>

definition numeric_column :: "string \<Rightarrow> frame \<Rightarrow> bool" where
  "numeric_column c d = list_all is_number (column c (rows d))"

definition int_column :: "string \<Rightarrow> frame \<Rightarrow> bool" where
  "int_column c d = list_all is_int (column c (rows d))"

definition datetime_index :: "frame \<Rightarrow> bool" where
  "datetime_index d = list_all (\<lambda>r. case idx r of Time _ \<Rightarrow> True | _ \<Rightarrow> False) (rows d)"

text \<open>Lines 106 to 112.\<close>

definition summary_of :: "lib \<Rightarrow> frame \<Rightarrow> py_error + frame" where
  "summary_of L d =
     (if ''Building'' \<notin> set (columns d) then Inl (KeyError ''Building'')
      else if ''kWh'' \<notin> set (columns d) then Inl (KeyError ''kWh'')
      else if \<not> numeric_column ''kWh'' d then Inl TypeError
      else Inr (sort_values L ''total_kWh'' False
        \<lparr>columns = [''mean_kWh'', ''min_kWh'', ''max_kWh'', ''total_kWh''],
         rows = map (\<lambda>k. let vs = num_vals ''kWh'' (group_rows ''Building'' k (rows d));
                              it = int_column ''kWh'' d
                          in \<lparr>idx = k,
                              cells = [(''mean_kWh'', agg_mean vs), (''min_kWh'', agg_min it vs),
                                       (''max_kWh'', agg_max it vs), (''total_kWh'', agg_sum it vs)]\<rparr>)
                    (group_keys ''Building'' (rows d))\<rparr>))"

definition on_day :: "int \<Rightarrow> row \<Rightarrow> bool" where
  "on_day dd r = (case idx r of Time t \<Rightarrow> day_of t = dd | _ \<Rightarrow> False)"

definition in_week :: "int \<Rightarrow> row \<Rightarrow> bool" where
  "in_week w r = (case idx r of Time t \<Rightarrow> week_of t = w | _ \<Rightarrow> False)"

text \<open>The integers from the least to the greatest element of a list.\<close>

definition span :: "int list \<Rightarrow> int list" where
  "span xs = (case xs of [] \<Rightarrow> [] | x # ys \<Rightarrow> [fold min ys x..fold max ys x])"

text \<open>
  Line 128, \<open>self.df['kWh'].resample('D').sum()\<close>: one entry for every calendar day
  from the first to the last day of the table, the sum of the day's values (0 for a day
  with none), in the type of the column.
\<close>

definition daily_of :: "frame \<Rightarrow> py_error + (timestamp \<times> cell) list" where
  "daily_of d =
     (if ''kWh'' \<notin> set (columns d) then Inl (KeyError ''kWh'')
      else if \<not> datetime_index d then Inl TypeError
      else if \<not> numeric_column ''kWh'' d then Inl TypeError
      else Inr (map (\<lambda>dd. (dd * ns_per_day,
                            agg_sum (int_column ''kWh'' d) (num_vals ''kWh'' (filter (on_day dd) (rows d)))))
                    (span (map day_of (times (rows d))))))"

text \<open>
  Lines 131 to 133, \<open>groupby('Building')['kWh'].resample('W').mean()\<close> and
  \<open>unstack(level=0)\<close>. The long series has, for every building, one entry for every
  week from the building's first to its last week: the mean of the week's values,
  missing for a week with none. The wide table has one column for every building and
  one row for every week label of the long series, in order; a week outside a
  building's span is missing in its column. On a long series with no entry (no row of
  the table has a building) \<open>unstack\<close> raises \<open>ValueError\<close>.
\<close>

definition weekly_long :: "frame \<Rightarrow> (cell \<times> int \<times> cell) list" where
  "weekly_long d =
     concat (map (\<lambda>k. let g = group_rows ''Building'' k (rows d)
                       in map (\<lambda>w. (k, w, agg_mean (num_vals ''kWh'' (filter (in_week w) g))))
                              (span (map week_of (times g))))
                 (group_keys ''Building'' (rows d)))"

record wide =
  wcolumns :: "cell list"
  wrows :: "(timestamp \<times> cell list) list"

definition unstack :: "(cell \<times> int \<times> cell) list \<Rightarrow> py_error + wide" where
  "unstack long =
     (if long = [] then Inl ValueError
      else
        (let ks = sort_key cell_rank (remdups (map fst long));
             ws = sort (remdups (map (\<lambda>e. fst (snd e)) long))
         in Inr \<lparr>wcolumns = ks,
                 wrows = map (\<lambda>w. (week_label w,
                                    map (\<lambda>k. case map_of (map (\<lambda>e. ((fst e, fst (snd e)), snd (snd e))) long) (k, w) of
                                                Some v \<Rightarrow> v | None \<Rightarrow> NA) ks)) ws\<rparr>))"

definition weekly_of :: "frame \<Rightarrow> py_error + wide" where
  "weekly_of d =
     (if ''Building'' \<notin> set (columns d) then Inl (KeyError ''Building'')
      else unstack (weekly_long d))"

text \<open>
  Lines 139 to 141, the function applied to each group \<open>g\<close> of the table with the
  \<open>Hour\<close> column. \<open>g['kWh'].idxmax()\<close> is the index label of the first row, in table
  order, whose value is the greatest of the group. \<open>g.loc[label]\<close> selects by label:
  it is that one row (a Series) when no other row of the group has the label, and the
  table of all the rows of the group with the label otherwise. \<open>[['Hour', 'kWh']]\<close>
  keeps the two cells of each selected row.
\<close>

definition idxmax :: "string \<Rightarrow> row list \<Rightarrow> py_error + cell" where
  "idxmax c g =
     (case num_vals c g of
        [] \<Rightarrow> Inl ValueError
      | v # ws \<Rightarrow>
          (case filter (\<lambda>r. numval (cellv r c) = Some (fold max ws v)) g of
             [] \<Rightarrow> Inl ValueError
           | r # _ \<Rightarrow> Inr (idx r)))"

datatype selection = OneRow "cell \<times> cell" | ManyRows "(cell \<times> cell) list"

definition loc :: "cell \<Rightarrow> row list \<Rightarrow> py_error + selection" where
  "loc label g =
     (case filter (\<lambda>r. idx r = label) g of
        [] \<Rightarrow> Inl (KeyError ''label'')
      | [r] \<Rightarrow> Inr (OneRow (cellv r ''Hour'', cellv r ''kWh''))
      | rs \<Rightarrow> Inr (ManyRows (map (\<lambda>r. (cellv r ''Hour'', cellv r ''kWh'')) rs)))"

definition peak_of_group :: "row list \<Rightarrow> py_error + selection" where
  "peak_of_group g = (case idxmax ''kWh'' g of Inl e \<Rightarrow> Inl e | Inr label \<Rightarrow> loc label g)"

text \<open>
  \<open>groupby('Building').apply(...)\<close>: the function's result for every group, in key
  order; an exception in one group is the exception of the call.
\<close>

fun apply_groups :: "(row list \<Rightarrow> py_error + 'a) \<Rightarrow> (cell \<times> row list) list
    \<Rightarrow> py_error + (cell \<times> 'a) list" where
  "apply_groups f [] = Inr []"
| "apply_groups f ((k, g) # gs) =
     (case f g of
        Inl e \<Rightarrow> Inl e
      | Inr v \<Rightarrow> (case apply_groups f gs of Inl e \<Rightarrow> Inl e | Inr vs \<Rightarrow> Inr ((k, v) # vs)))"

fun is_one_row :: "selection \<Rightarrow> bool" where
  "is_one_row (OneRow _) = True"
| "is_one_row (ManyRows _) = False"

text \<open>
  Lines 139 to 142. When every group gives one row, or every group gives a table, the
  results make a table with the two columns that line 142 names \<open>PeakHour\<close> and
  \<open>Peak_kWh\<close>. When some groups give one row and others a table, the table pandas
  assembles has a third column and the assignment of two names on line 142 raises
  \<open>ValueError\<close>.
\<close>

definition peak_of :: "frame \<Rightarrow> py_error + (cell \<times> selection) list" where
  "peak_of dh =
     (if ''Building'' \<notin> set (columns dh) then Inl (KeyError ''Building'')
      else
        (case apply_groups peak_of_group
                (map (\<lambda>k. (k, group_rows ''Building'' k (rows dh))) (group_keys ''Building'' (rows dh))) of
           Inl e \<Rightarrow> Inl e
         | Inr sel \<Rightarrow>
             if list_ex (\<lambda>p. is_one_row (snd p)) sel \<and> list_ex (\<lambda>p. \<not> is_one_row (snd p)) sel
             then Inl ValueError else Inr sel))"

text \<open>Line 138, \<open>df_with_hour['Hour'] = df_with_hour.index.hour\<close>.\<close>

definition hour_cell :: "row \<Rightarrow> cell" where
  "hour_cell r = (case idx r of Time t \<Rightarrow> I64 (hour_of t) | _ \<Rightarrow> NA)"

subsection \<open>The object and its store\<close>

text \<open>
  Tables are mutable objects that variables and fields refer to. The store holds the
  tables allocated so far, an address being a position in it, and the log. The fields
  of a \<open>BuildingManager\<close> that cache results hold \<open>None\<close> or a pandas object.
\<close>

type_synonym addr = nat

record state =
  objects :: "frame list"
  logs :: log

datatype table =
    DataFrame frame
  | DailySeries "(timestamp \<times> cell) list"
  | WeeklyFrame wide
  | PeakFrame "(cell \<times> selection) list"

record manager =
  df :: addr
  summary_stats :: "table option"
  daily_totals :: "table option"
  weekly_avg_by_building :: "table option"
  peak_hours_by_building :: "table option"

text \<open>\<open>x.copy()\<close>: a new table with the contents of the table at \<open>a\<close>.\<close>

definition copy :: "addr \<Rightarrow> state \<Rightarrow> addr \<times> state" where
  "copy a s = (length (objects s), s\<lparr>objects := objects s @ [objects s ! a]\<rparr>)"

definition log_event :: "level \<Rightarrow> event \<Rightarrow> state \<Rightarrow> state" where
  "log_event l e s = s\<lparr>logs := logs s @ [(l, e)]\<rparr>"

text \<open>\<open>BuildingManager.__init__\<close>, lines 90 to 95.\<close>

definition init :: "addr \<Rightarrow> state \<Rightarrow> manager \<times> state" where
  "init df_combined s =
     (let (a, s') = copy df_combined s
      in (\<lparr>df = a, summary_stats = None, daily_totals = None,
           weekly_avg_by_building = None, peak_hours_by_building = None\<rparr>, s'))"

text \<open>\<open>calculate_summary_statistics\<close>, lines 97 to 114.\<close>

definition calculate_summary_statistics :: "lib \<Rightarrow> manager \<Rightarrow> state \<Rightarrow> py_error + manager \<times> state" where
  "calculate_summary_statistics L m s =
     (let d = objects s ! df m
      in if is_empty d then
           Inr (m\<lparr>summary_stats := Some (DataFrame empty_frame)\<rparr>, log_event WARNING EmptySummary s)
         else
           (case summary_of L d of
              Inl e \<Rightarrow> Inl e
            | Inr st \<Rightarrow>
                Inr (m\<lparr>summary_stats := Some (DataFrame st)\<rparr>,
                     log_event INFO (SummaryDone (length (rows st))) s)))"

text \<open>\<open>calculate_time_trends\<close>, lines 116 to 143.\<close>

definition calculate_time_trends :: "manager \<Rightarrow> state \<Rightarrow> py_error + manager \<times> state" where
  "calculate_time_trends m s =
     (let d = objects s ! df m
      in if is_empty d then
           Inr (m\<lparr>daily_totals := Some (DataFrame empty_frame),
                  weekly_avg_by_building := Some (DataFrame empty_frame)\<rparr>,
                log_event WARNING EmptyTrends s)
         else
           (case daily_of d of
              Inl e \<Rightarrow> Inl e
            | Inr daily \<Rightarrow>
                (case weekly_of d of
                   Inl e \<Rightarrow> Inl e
                 | Inr weekly \<Rightarrow>
                     (let s1 = log_event INFO (TrendsDone (length daily)) s;
                          (df_with_hour, s2) = copy (df m) s1;
                          s3 = s2\<lparr>objects := (objects s2)
                                 [df_with_hour := assign ''Hour'' hour_cell (objects s2 ! df_with_hour)]\<rparr>
                      in case peak_of (objects s3 ! df_with_hour) of
                           Inl e \<Rightarrow> Inl e
                         | Inr peak \<Rightarrow>
                             Inr (m\<lparr>daily_totals := Some (DailySeries daily),
                                    weekly_avg_by_building := Some (WeeklyFrame weekly),
                                    peak_hours_by_building := Some (PeakFrame peak)\<rparr>, s3)))))"

text \<open>
  Lines 302 to 307 of \<open>main\<close>: ingestion, the object, the two aggregations. The table
  that \<open>ingest_data\<close> returns is a new object of the store. An exception of a step is
  the exception of the run.
\<close>

definition pipeline :: "lib \<Rightarrow> location \<Rightarrow> state \<Rightarrow> py_error + manager \<times> state" where
  "pipeline L data_dir s =
     (case ingest_data L data_dir (logs s) of
        Inl e \<Rightarrow> Inl e
      | Inr (d, lg) \<Rightarrow>
          (let a = length (objects s);
               s1 = \<lparr>objects = objects s @ [d], logs = lg\<rparr>;
               (m, s2) = init a s1
           in case calculate_summary_statistics L m s2 of
                Inl e \<Rightarrow> Inl e
              | Inr (m1, s3) \<Rightarrow> calculate_time_trends m1 s3))"

text \<open>The values a run of the pipeline computes: SummaryStats and TimeTrend.\<close>

definition results :: "py_error + manager \<times> state
    \<Rightarrow> py_error + table option \<times> table option \<times> table option \<times> table option" where
  "results r =
     (case r of
        Inl e \<Rightarrow> Inl e
      | Inr (m, s) \<Rightarrow>
          Inr (summary_stats m, daily_totals m, weekly_avg_by_building m, peak_hours_by_building m))"

section \<open>Text\<close>

text \<open>
  \<open>str.strip()\<close>, \<open>str.split(sep)\<close>, \<open>str.upper()\<close> and \<open>str.lower()\<close> on ASCII
  text. White space is what \<open>str.isspace\<close> accepts below 128.
\<close>

definition is_space :: "char \<Rightarrow> bool" where
  "is_space c = ((of_char c :: nat) \<in> set [9, 10, 11, 12, 13, 28, 29, 30, 31, 32])"

definition strip :: "string \<Rightarrow> string" where
  "strip s = rev (dropWhile is_space (rev (dropWhile is_space s)))"

fun split_on :: "char \<Rightarrow> string \<Rightarrow> string list" where
  "split_on sep [] = [[]]"
| "split_on sep (c # cs) =
     (if c = sep then [] # split_on sep cs
      else (case split_on sep cs of p # ps \<Rightarrow> (c # p) # ps | [] \<Rightarrow> [[c]]))"

definition upper_char :: "char \<Rightarrow> char" where
  "upper_char c = (let n = (of_char c :: nat) in if 97 \<le> n \<and> n \<le> 122 then char_of (n - 32) else c)"

definition lower_char :: "char \<Rightarrow> char" where
  "lower_char c = (let n = (of_char c :: nat) in if 65 \<le> n \<and> n \<le> 90 then char_of (n + 32) else c)"

definition upper :: "string \<Rightarrow> string" where
  "upper s = map upper_char s"

definition lower :: "string \<Rightarrow> string" where
  "lower s = map lower_char s"

section \<open>The calorie tracker (tracker.py)\<close>

text \<open>
  The script reads its standard input line by line, prints, and may write one file. A run
  is the list of what it printed and the exception that ended it, if one did. \<open>int()\<close>
  and \<open>float()\<close> are parameters: \<open>None\<close> stands for a text they raise \<open>ValueError\<close> on.
\<close>

datatype printed =
    Banner
  | TableHead
  | TableRow nat string rat
  | TableFoot
  | TotalLine rat
  | AverageLine rat
  | LimitStatus bool
  | SavedLine bool

text \<open>Lines 25 to 29: the loop that reads \<open>n\<close> meals.\<close>

fun read_meals :: "(string \<Rightarrow> rat option) \<Rightarrow> nat \<Rightarrow> string list
    \<Rightarrow> py_error + (string \<times> rat) list \<times> string list" where
  "read_meals pf 0 inp = Inr ([], inp)"
| "read_meals pf (Suc n) [] = Inl EOFError"
| "read_meals pf (Suc n) (l # inp) =
     (case split_on CHR '','' (strip l) of
        [meal, cal] \<Rightarrow>
          (case pf (strip cal) of
             None \<Rightarrow> Inl ValueError
           | Some c \<Rightarrow>
               (case read_meals pf n inp of
                  Inl e \<Rightarrow> Inl e
                | Inr (ms, rest) \<Rightarrow> Inr ((upper (strip meal), c) # ms, rest)))
      | _ \<Rightarrow> Inl ValueError)"

text \<open>Lines 32 to 36: the table, one row for every meal, numbered from 1.\<close>

definition table_rows :: "(string \<times> rat) list \<Rightarrow> printed list" where
  "table_rows ms = map (\<lambda>(i, m). TableRow (Suc i) (fst m) (snd m)) (zip [0..<length ms] ms)"

text \<open>
  The whole script. \<open>writable\<close> says whether \<open>open("calorie_log.txt", "w")\<close> succeeds.
\<close>

definition tracker :: "(string \<Rightarrow> int option) \<Rightarrow> (string \<Rightarrow> rat option) \<Rightarrow> bool \<Rightarrow> string list
    \<Rightarrow> printed list \<times> py_error option" where
  "tracker p_int pf writable inp =
     (case inp of
        [] \<Rightarrow> ([Banner], Some EOFError)
      | l1 # in1 \<Rightarrow>
     (case p_int l1 of
        None \<Rightarrow> ([Banner], Some ValueError)
      | Some total_meals \<Rightarrow>
     (case in1 of
        [] \<Rightarrow> ([Banner], Some EOFError)
      | l2 # in2 \<Rightarrow>
     (case pf l2 of
        None \<Rightarrow> ([Banner], Some ValueError)
      | Some limit \<Rightarrow>
     (case read_meals pf (nat total_meals) in2 of
        Inl e \<Rightarrow> ([Banner], Some e)
      | Inr (meals, in3) \<Rightarrow>
          (let meal_calories = map snd meals;
               out1 = [Banner, TableHead] @ table_rows meals @ [TableFoot];
               total_cal = sum_list meal_calories
           in if length meal_calories = 0 then (out1, Some ZeroDivisionError)
              else
                (let avg_cal = total_cal / of_nat (length meal_calories);
                     out2 = out1 @ [TotalLine total_cal, AverageLine avg_cal, LimitStatus (total_cal > limit)]
                 in case in3 of
                      [] \<Rightarrow> (out2, Some EOFError)
                    | l3 # _ \<Rightarrow>
                        if lower (strip l3) = ''yes'' then
                          (if writable then (out2 @ [SavedLine True], None) else (out2, Some OSError))
                        else (out2 @ [SavedLine False], None))))))))"

section \<open>The gradebook (gradebook.py)\<close>

text \<open>
  \<open>main\<close>, lines 201 to 244: the menu loop. What the choices 1, 2 and 3 do (data entry,
  reading and writing the CSV file, printing the summary) is a parameter: given the
  choice and the input that is left, it raises or returns what it printed and how many
  lines of input it read.
\<close>

type_synonym handler = "string \<Rightarrow> string list \<Rightarrow> py_error + string list \<times> nat"

definition menu :: "string list" where
  "menu = [''1. Manual Entry'', ''2. Load from CSV'', ''3. Add Student to CSV'', ''4. Exit'',
           ''Select an option (1-4): '']"

function main_loop :: "handler \<Rightarrow> string list \<Rightarrow> string list \<Rightarrow> string list \<times> py_error option" where
  "main_loop h inp out =
     (case inp of
        [] \<Rightarrow> (out @ menu, Some EOFError)
      | l # rest \<Rightarrow>
          (if strip l = ''1'' \<or> strip l = ''2'' \<or> strip l = ''3'' then
             (case h (strip l) rest of
                Inl e \<Rightarrow> (out @ menu, Some e)
              | Inr (shown, n) \<Rightarrow> main_loop h (drop n rest) (out @ menu @ shown))
           else if strip l = ''4'' then (out @ menu @ [''Goodbye!''], None)
           else main_loop h rest (out @ menu @ [''Invalid choice. Try again.''])))"
  by pat_completeness auto
termination
  by (relation "measure (\<lambda>(h, inp, out). length inp)") auto

definition main :: "handler \<Rightarrow> string list \<Rightarrow> string list \<times> py_error option" where
  "main h inp = main_loop h inp [''=== GRADEBOOK ANALYZER ==='']"

text \<open>
  The module, run as a script. Its top-level statements bind names in the module's
  namespace, which starts with the names Python gives every module. A name is looked up
  in the namespace, then among the builtins; a name found in neither raises
  \<open>NameError\<close>.
\<close>

datatype pyval = VStr string | VNum rat | VFun string | VModule string | VBuiltin string | VNone

definition builtin_names :: "string list" where
  "builtin_names =
    [''ArithmeticError'', ''AssertionError'', ''AttributeError'', ''BaseException'',
     ''BaseExceptionGroup'', ''BlockingIOError'', ''BrokenPipeError'', ''BufferError'',
     ''BytesWarning'', ''ChildProcessError'', ''ConnectionAbortedError'',
     ''ConnectionError'', ''ConnectionRefusedError'', ''ConnectionResetError'',
     ''DeprecationWarning'', ''EOFError'', ''Ellipsis'', ''EncodingWarning'',
     ''EnvironmentError'', ''Exception'', ''ExceptionGroup'', ''False'',
     ''FileExistsError'', ''FileNotFoundError'', ''FloatingPointError'', ''FutureWarning'',
     ''GeneratorExit'', ''IOError'', ''ImportError'', ''ImportWarning'',
     ''IndentationError'', ''IndexError'', ''InterruptedError'', ''IsADirectoryError'',
     ''KeyError'', ''KeyboardInterrupt'', ''LookupError'', ''MemoryError'',
     ''ModuleNotFoundError'', ''NameError'', ''None'', ''NotADirectoryError'',
     ''NotImplemented'', ''NotImplementedError'', ''OSError'', ''OverflowError'',
     ''PendingDeprecationWarning'', ''PermissionError'', ''ProcessLookupError'',
     ''RecursionError'', ''ReferenceError'', ''ResourceWarning'', ''RuntimeError'',
     ''RuntimeWarning'', ''StopAsyncIteration'', ''StopIteration'', ''SyntaxError'',
     ''SyntaxWarning'', ''SystemError'', ''SystemExit'', ''TabError'', ''TimeoutError'',
     ''True'', ''TypeError'', ''UnboundLocalError'', ''UnicodeDecodeError'',
     ''UnicodeEncodeError'', ''UnicodeError'', ''UnicodeTranslateError'',
     ''UnicodeWarning'', ''UserWarning'', ''ValueError'', ''Warning'',
     ''ZeroDivisionError'', ''__build_class__'', ''__debug__'', ''__doc__'', ''__import__'',
     ''__loader__'', ''__name__'', ''__package__'', ''__spec__'', ''abs'', ''aiter'',
     ''all'', ''anext'', ''any'', ''ascii'', ''bin'', ''bool'', ''breakpoint'',
     ''bytearray'', ''bytes'', ''callable'', ''chr'', ''classmethod'', ''compile'',
     ''complex'', ''copyright'', ''credits'', ''delattr'', ''dict'', ''dir'', ''divmod'',
     ''enumerate'', ''eval'', ''exec'', ''exit'', ''filter'', ''float'', ''format'',
     ''frozenset'', ''getattr'', ''globals'', ''hasattr'', ''hash'', ''help'', ''hex'',
     ''id'', ''input'', ''int'', ''isinstance'', ''issubclass'', ''iter'', ''len'',
     ''license'', ''list'', ''locals'', ''map'', ''max'', ''memoryview'', ''min'', ''next'',
     ''object'', ''oct'', ''open'', ''ord'', ''pow'', ''print'', ''property'', ''quit'',
     ''range'', ''repr'', ''reversed'', ''round'', ''set'', ''setattr'', ''slice'',
     ''sorted'', ''staticmethod'', ''str'', ''sum'', ''super'', ''tuple'', ''type'',
     ''vars'', ''zip'']"

definition module_namespace :: "(string \<times> pyval) list" where
  "module_namespace =
     [(''__name__'', VStr ''__main__''), (''__doc__'', VNone), (''__package__'', VNone),
      (''__loader__'', VNone), (''__spec__'', VNone), (''__file__'', VStr ''gradebook.py''),
      (''__builtins__'', VModule ''builtins'')]"

datatype stmt = Import string | Assign string pyval | Def string

fun bind :: "stmt \<Rightarrow> (string \<times> pyval) list \<Rightarrow> (string \<times> pyval) list" where
  "bind (Import m) ns = AList.update m (VModule m) ns"
| "bind (Assign x v) ns = AList.update x v ns"
| "bind (Def f) ns = AList.update f (VFun f) ns"

definition lookup_name :: "(string \<times> pyval) list \<Rightarrow> string \<Rightarrow> py_error + pyval" where
  "lookup_name ns x =
     (case map_of ns x of
        Some v \<Rightarrow> Inr v
      | None \<Rightarrow> if x \<in> set builtin_names then Inr (VBuiltin x) else Inl (NameError x))"

text \<open>Lines 6 to 244: the imports, the constant and the function definitions.\<close>

definition gradebook_statements :: "stmt list" where
  "gradebook_statements =
     [Import ''csv'', Import ''os'', Assign ''PASS_MARK'' (VNum 40),
      Def ''get_manual_input'', Def ''load_csv_data'', Def ''append_student_record'',
      Def ''calculate_average'', Def ''find_max_score'', Def ''find_min_score'',
      Def ''assign_grades'', Def ''print_summary'', Def ''main'']"

text \<open>
  The last statement of the file, lines 246 and 247: \<open>if x == "lit":\<close> and, on the
  next line, the call \<open>main()\<close> after some indentation. Before any statement runs
  Python compiles the whole file, and the tokenizer takes only spaces and tabs as
  indentation: any other character there, the no-break space U+00A0 included (the two
  bytes C2 A0 in UTF-8), is a \<open>SyntaxError\<close>, and so is a body that is not indented.
  The lines before the last statement are ASCII and compile.
\<close>

record guard =
  tested :: string
  literal :: string
  body_indent :: string

definition nbsp :: string where
  "nbsp = [char_of (194 :: nat), char_of (160 :: nat)]"

definition indent_ok :: "string \<Rightarrow> bool" where
  "indent_ok s = (s \<noteq> [] \<and> list_all (\<lambda>c. c = CHR '' '' \<or> c = CHR 0x09) s)"

text \<open>
  The run of such a script: the compilation, then the statements of the module, then
  the comparison, which evaluates the name first, and the call.
\<close>

definition run_script :: "guard \<Rightarrow> handler \<Rightarrow> string list \<Rightarrow> string list \<times> py_error option" where
  "run_script g h inp =
     (if \<not> indent_ok (body_indent g) then ([], Some SyntaxError)
      else
        (let ns = fold bind gradebook_statements module_namespace
         in case lookup_name ns (tested g) of
              Inl e \<Rightarrow> ([], Some e)
            | Inr v \<Rightarrow>
                if v = VStr (literal g) then
                  (case lookup_name ns ''main'' of
                     Inl e \<Rightarrow> ([], Some e)
                   | Inr _ \<Rightarrow> main h inp)
                else ([], None)))"

text \<open>
  Lines 246 and 247 as they are written: the name \<open>_name_\<close>, the text \<open>_main_\<close>, and
  four no-break spaces before \<open>main()\<close>.
\<close>

definition written_guard :: guard where
  "written_guard = \<lparr>tested = ''_name_'', literal = ''_main_'', body_indent = nbsp @ nbsp @ nbsp @ nbsp\<rparr>"

definition run_gradebook :: "handler \<Rightarrow> string list \<Rightarrow> string list \<times> py_error option" where
  "run_gradebook h inp = run_script written_guard h inp"

section \<open>Notions the properties are stated with\<close>

text \<open>
  What the properties ask of the library's sort on long arrays: it returns the rows it
  was given, each as often as it was given, in ascending order of the key.
\<close>

definition sorts :: "((row \<Rightarrow> nat \<times> rat \<times> string) \<Rightarrow> row list \<Rightarrow> row list) \<Rightarrow> bool" where
  "sorts qs = (\<forall>key rs. mset (qs key rs) = mset rs \<and> sorted (map key (qs key rs)))"

text \<open>
  The three columns a file must have, the files of a directory that are read and have
  them, and their tables in the order ingestion reads them.
\<close>

definition required :: "string list" where
  "required = [''Timestamp'', ''Building'', ''kWh'']"

definition accepted :: "read_result \<Rightarrow> bool" where
  "accepted res = (case res of Parsed tb \<Rightarrow> set required \<subseteq> set (columns tb) | _ \<Rightarrow> False)"

definition read_failed :: "read_result \<Rightarrow> bool" where
  "read_failed res = (case res of Parsed _ \<Rightarrow> False | _ \<Rightarrow> True)"

definition table_of :: "string \<times> read_result \<Rightarrow> frame" where
  "table_of e = (case snd e of Parsed tb \<Rightarrow> tb | _ \<Rightarrow> empty_frame)"

definition tables_of :: "directory \<Rightarrow> frame list" where
  "tables_of fs = map table_of (filter (\<lambda>e. accepted (snd e)) fs)"

definition tables :: "directory \<Rightarrow> frame list" where
  "tables d = tables_of (csv_files d)"

text \<open>
  A row of a file whose timestamp parses, that is, whose cell line 59 does not leave
  missing (this depends on the file: the format comes from the first value of its
  column), and a row whose value is numeric, that is, whose cell line 79 does not
  leave missing.
\<close>

definition ts_ok :: "lib \<Rightarrow> frame \<Rightarrow> row \<Rightarrow> bool" where
  "ts_ok L tb r = (to_datetime L (column ''Timestamp'' (rows tb)) (cellv r ''Timestamp'') \<noteq> NA)"

definition num_ok :: "lib \<Rightarrow> row \<Rightarrow> bool" where
  "num_ok L r = (convert_cell L (cellv r ''kWh'') \<noteq> NA)"

text \<open>The rows of some files that have both, file by file.\<close>

definition good_rows :: "lib \<Rightarrow> frame list \<Rightarrow> row list" where
  "good_rows L tbs = concat (map (\<lambda>tb. filter (\<lambda>r. ts_ok L tb r \<and> num_ok L r) (rows tb)) tbs)"

text \<open>
  A row of a file after line 59, the rows of the cleaned files one after the other, and
  a row of the concatenation \<open>rs\<close> as line 76 and as line 79 leave it in a table
  with the columns \<open>cols\<close>.
\<close>

definition stamped :: "lib \<Rightarrow> frame \<Rightarrow> row \<Rightarrow> row" where
  "stamped L tb r =
     r\<lparr>cells := AList.update ''Timestamp''
                  (to_datetime L (column ''Timestamp'' (rows tb)) (cellv r ''Timestamp'')) (cells r)\<rparr>"

definition cleaned_rows :: "lib \<Rightarrow> frame list \<Rightarrow> row list" where
  "cleaned_rows L tbs = concat (map (\<lambda>tb. rows (clean_file L tb)) tbs)"

definition indexed_row :: "string list \<Rightarrow> row list \<Rightarrow> row \<Rightarrow> row" where
  "indexed_row cols rs r =
     \<lparr>idx = (if ''Timestamp'' \<in> set cols
             then in_column_type (column ''Timestamp'' rs) (cellv r ''Timestamp'') else NA),
      cells = AList.delete ''Timestamp''
                (map (\<lambda>c. (c, in_column_type (column c rs) (cellv r c))) cols)\<rparr>"

definition final_row :: "lib \<Rightarrow> string list \<Rightarrow> row list \<Rightarrow> row \<Rightarrow> row" where
  "final_row L cols rs r =
     (indexed_row cols rs r)
       \<lparr>cells := AList.update ''kWh''
          (to_numeric L (column ''kWh'' (map (indexed_row cols rs) rs))
             (cellv (indexed_row cols rs r) ''kWh''))
          (cells (indexed_row cols rs r))\<rparr>"

text \<open>The record the loop of ingestion writes to the log for one file.\<close>

definition file_event :: "lib \<Rightarrow> string \<times> read_result \<Rightarrow> level \<times> event" where
  "file_event L e =
     (case snd e of
        FileNotFoundError \<Rightarrow> (ERROR, FileNotFound (fst e))
      | OtherError \<Rightarrow> (ERROR, ErrorReading (fst e))
      | Parsed tb \<Rightarrow>
          (case filter (\<lambda>c. c \<notin> set (columns tb)) required of
             c # _ \<Rightarrow> (WARNING, MissingColumn c (fst e))
           | [] \<Rightarrow> (INFO, Ingested (fst e) (length (rows (clean_file L tb))))))"

text \<open>The table an ingestion returned, if it returned.\<close>

definition returned :: "py_error + frame \<times> log \<Rightarrow> py_error + frame" where
  "returned r = (case r of Inl e \<Rightarrow> Inl e | Inr (d, lg) \<Rightarrow> Inr d)"

text \<open>
  What a table that ingestion returns satisfies when it is not empty: it has the two
  columns, its index holds timestamps and its values are numbers. The values of a
  building are the numbers under \<open>kWh\<close> of its rows, in table order; the total of a
  row of the summary is the number under \<open>total_kWh\<close>.
\<close>

definition combined_table :: "frame \<Rightarrow> bool" where
  "combined_table d =
     (''Building'' \<in> set (columns d) \<and> ''kWh'' \<in> set (columns d) \<and> datetime_index d
      \<and> list_all (\<lambda>r. numval (cellv r ''kWh'') \<noteq> None) (rows d))"

definition building_vals :: "frame \<Rightarrow> cell \<Rightarrow> rat list" where
  "building_vals d k = num_vals ''kWh'' (group_rows ''Building'' k (rows d))"

definition total_of :: "row \<Rightarrow> rat" where
  "total_of g = (case numval (cellv g ''total_kWh'') of Some v \<Rightarrow> v | None \<Rightarrow> 0)"

text \<open>The row of the summary for a building.\<close>

definition stats_row :: "frame \<Rightarrow> cell \<Rightarrow> row" where
  "stats_row d k =
     \<lparr>idx = k,
      cells = [(''mean_kWh'', agg_mean (building_vals d k)),
               (''min_kWh'', agg_min (int_column ''kWh'' d) (building_vals d k)),
               (''max_kWh'', agg_max (int_column ''kWh'' d) (building_vals d k)),
               (''total_kWh'', agg_sum (int_column ''kWh'' d) (building_vals d k))]\<rparr>"


text \<open>The averages a run of the calorie tracker printed.\<close>

definition averages :: "printed list \<Rightarrow> rat list" where
  "averages out = concat (map (\<lambda>p. case p of AverageLine a \<Rightarrow> [a] | _ \<Rightarrow> []) out)"

section \<open>Example inputs\<close>

text \<open>
  A library that knows a few texts: it infers one format from the texts with a time
  of day and another from the date alone, parses a text under the format it was
  inferred from only, and sorts long arrays by insertion too.
\<close>

definition demo_guess :: "string \<Rightarrow> string option" where
  "demo_guess s =
     (if s = ''2024-01-01 10:00:00'' \<or> s = ''2024-01-01 11:00:00'' then Some ''%Y-%m-%d %H:%M:%S''
      else if s = ''2024-01-02'' then Some ''%Y-%m-%d''
      else None)"

definition demo_strptime :: "string \<Rightarrow> string \<Rightarrow> timestamp option" where
  "demo_strptime f s =
     (if f = ''%Y-%m-%d %H:%M:%S'' \<and> s = ''2024-01-01 10:00:00'' then Some 1704103200000000000
      else if f = ''%Y-%m-%d %H:%M:%S'' \<and> s = ''2024-01-01 11:00:00'' then Some 1704106800000000000
      else if f = ''%Y-%m-%d'' \<and> s = ''2024-01-02'' then Some 1704153600000000000
      else None)"

definition demo_dateutil :: "string \<Rightarrow> timestamp option" where
  "demo_dateutil s =
     (if s = ''2024-01-01 10:00:00'' then Some 1704103200000000000
      else if s = ''2024-01-01 11:00:00'' then Some 1704106800000000000
      else if s = ''2024-01-02'' then Some 1704153600000000000
      else None)"

definition demo_number :: "string \<Rightarrow> cell" where
  "demo_number s =
     (if s = ''10'' then I64 10 else if s = ''20'' then I64 20
      else if s = ''5'' then I64 5 else if s = ''7.5'' then Num (15 / 2) else NA)"

definition demo_lib :: lib where
  "demo_lib =
     \<lparr>guess_format = demo_guess, strptime = demo_strptime, dateutil = demo_dateutil,
      parse_number = demo_number, quicksort = sort_key, concat_raises = (\<lambda>tbs. None)\<rparr>"

text \<open>
  A file with a row whose timestamp does not parse and a row whose value is not a
  number (its \<open>kWh\<close> column is a column of texts), a file without the \<open>kWh\<close> column,
  and a directory with these, a file that cannot be read and a file that is not a CSV
  file.
\<close>

definition csv_row :: "nat \<Rightarrow> string \<Rightarrow> string \<Rightarrow> string \<Rightarrow> row" where
  "csv_row i ts b k =
     \<lparr>idx = I64 (int i),
      cells = [(''Timestamp'', Str ts), (''Building'', Str b), (''kWh'', Str k)]\<rparr>"

definition demo_file :: frame where
  "demo_file =
     \<lparr>columns = [''Timestamp'', ''Building'', ''kWh''],
      rows = [csv_row 0 ''2024-01-01 11:00:00'' ''A'' ''20'',
              csv_row 1 ''2024-01-01 10:00:00'' ''A'' ''10'',
              csv_row 2 ''yesterday'' ''A'' ''5'',
              csv_row 3 ''2024-01-01 10:00:00'' ''B'' ''unknown'',
              csv_row 4 ''2024-01-01 10:00:00'' ''B'' ''5'']\<rparr>"

definition demo_short :: frame where
  "demo_short =
     \<lparr>columns = [''Timestamp'', ''Building''],
      rows = [\<lparr>idx = I64 0,
               cells = [(''Timestamp'', Str ''2024-01-01 10:00:00''), (''Building'', Str ''C'')]\<rparr>]\<rparr>"

definition demo_dir :: directory where
  "demo_dir =
     [(''b.csv'', OtherError), (''a.csv'', Parsed demo_file),
      (''c.csv'', Parsed demo_short), (''notes.txt'', Parsed demo_file)]"




text \<open>
  A table as ingestion returns it from files of whole numbers: building A with the
  values 10 and 20, building B with the value 5. A store that holds it, and the manager
  built on it.
\<close>

definition reading :: "timestamp \<Rightarrow> string \<Rightarrow> cell \<Rightarrow> row" where
  "reading t b v = \<lparr>idx = Time t, cells = [(''Building'', Str b), (''kWh'', v)]\<rparr>"

definition demo_table :: frame where
  "demo_table =
     \<lparr>columns = [''Building'', ''kWh''],
      rows = [reading 1704103200000000000 ''A'' (I64 10),
              reading 1704103200000000000 ''B'' (I64 5),
              reading 1704106800000000000 ''A'' (I64 20)]\<rparr>"

definition demo_state :: state where
  "demo_state = snd (init 0 \<lparr>objects = [demo_table], logs = []\<rparr>)"

definition demo_manager :: manager where
  "demo_manager = fst (init 0 \<lparr>objects = [demo_table], logs = []\<rparr>)"

definition demo_stats :: frame where
  "demo_stats =
     \<lparr>columns = [''mean_kWh'', ''min_kWh'', ''max_kWh'', ''total_kWh''],
      rows = [\<lparr>idx = Str ''A'',
               cells = [(''mean_kWh'', Num 15), (''min_kWh'', I64 10),
                        (''max_kWh'', I64 20), (''total_kWh'', I64 30)]\<rparr>,
              \<lparr>idx = Str ''B'',
               cells = [(''mean_kWh'', Num 5), (''min_kWh'', I64 5),
                        (''max_kWh'', I64 5), (''total_kWh'', I64 5)]\<rparr>]\<rparr>"

text \<open>
  A table of whole numbers in which building A has the value
  \<open>9223372036854775807 = 2 ^ 63 - 1\<close> twice and building B has the value 5.
\<close>

definition big_table :: frame where
  "big_table =
     \<lparr>columns = [''Building'', ''kWh''],
      rows = [reading 1704103200000000000 ''A'' (I64 9223372036854775807),
              reading 1704106800000000000 ''A'' (I64 9223372036854775807),
              reading 1704103200000000000 ''B'' (I64 5)]\<rparr>"

definition big_state :: state where
  "big_state = snd (init 0 \<lparr>objects = [big_table], logs = []\<rparr>)"

definition big_manager :: manager where
  "big_manager = fst (init 0 \<lparr>objects = [big_table], logs = []\<rparr>)"

text \<open>
  A directory with one file in which building A has two readings at the same
  timestamp, 5 and then 10.
\<close>

definition dup_file :: frame where
  "dup_file =
     \<lparr>columns = [''Timestamp'', ''Building'', ''kWh''],
      rows = [\<lparr>idx = I64 0,
               cells = [(''Timestamp'', Str ''2024-01-01 10:00:00''), (''Building'', Str ''A''),
                        (''kWh'', I64 5)]\<rparr>,
              \<lparr>idx = I64 1,
               cells = [(''Timestamp'', Str ''2024-01-01 10:00:00''), (''Building'', Str ''A''),
                        (''kWh'', I64 10)]\<rparr>]\<rparr>"

definition dup_dir :: directory where
  "dup_dir = [(''a.csv'', Parsed dup_file)]"

text \<open>A store whose one table is empty, and the manager built on it.\<close>

definition empty_state :: state where
  "empty_state = snd (init 0 \<lparr>objects = [empty_frame], logs = []\<rparr>)"

definition empty_manager :: manager where
  "empty_manager = fst (init 0 \<lparr>objects = [empty_frame], logs = []\<rparr>)"

text \<open>Parsers of \<open>int()\<close> and \<open>float()\<close> that know a few texts.\<close>

definition demo_int :: "string \<Rightarrow> int option" where
  "demo_int s = (if s = ''2'' then Some 2 else if s = ''0'' then Some 0 else None)"

definition demo_float :: "string \<Rightarrow> rat option" where
  "demo_float s =
     (if s = ''100'' then Some 100 else if s = ''50'' then Some 50
      else if s = ''120.5'' then Some (241 / 2) else None)"

section \<open>Properties\<close>

subsection \<open>Ingestion\<close>

lemma ingest_loop_frames:
  "fst (ingest_loop L fs acc lg) = acc @ map (clean_file L) (tables_of fs)"
proof (induction fs arbitrary: acc lg)
  case Nil
  show ?case by (simp add: tables_of_def)
next
  case (Cons e fs)
  obtain name res where e: "e = (name, res)" by (cases e)
  show ?case
  proof (cases res)
    case FileNotFoundError
    with e Cons show ?thesis by (simp add: tables_of_def accepted_def)
  next
    case OtherError
    with e Cons show ?thesis by (simp add: tables_of_def accepted_def)
  next
    case (Parsed tb)
    with e Cons show ?thesis
      by (simp add: tables_of_def accepted_def required_def table_of_def Let_def)
  qed
qed

lemma ingest_loop_log:
  "snd (ingest_loop L fs acc lg) = lg @ map (file_event L) fs"
proof (induction fs arbitrary: acc lg)
  case Nil
  show ?case by simp
next
  case (Cons e fs)
  obtain name res where e: "e = (name, res)" by (cases e)
  show ?case
  proof (cases res)
    case FileNotFoundError
    with e Cons show ?thesis by (simp add: file_event_def)
  next
    case OtherError
    with e Cons show ?thesis by (simp add: file_event_def)
  next
    case (Parsed tb)
    with e Cons show ?thesis
      by (simp add: file_event_def required_def Let_def)
  qed
qed

lemma ingest_data_Dir:
  "ingest_data L (Dir d) lg =
     (if tables d = [] then
        Inr (empty_frame,
             lg @ (if csv_files d = [] then [(WARNING, NoCsvFiles)] else [])
                @ map (file_event L) (csv_files d) @ [(WARNING, NoValidData)])
      else
        (case concat_raises L (map (clean_file L) (tables d)) of
           Some e \<Rightarrow> Inl e
         | None \<Rightarrow>
             Inr (combine L (map (clean_file L) (tables d)),
                  lg @ (if csv_files d = [] then [(WARNING, NoCsvFiles)] else [])
                     @ map (file_event L) (csv_files d))))"
proof -
  let ?lg1 = "if csv_files d = [] then lg @ [(WARNING, NoCsvFiles)] else lg"
  obtain fr lg2 where l: "ingest_loop L (csv_files d) [] ?lg1 = (fr, lg2)"
    by (cases "ingest_loop L (csv_files d) [] ?lg1")
  have f: "fr = map (clean_file L) (tables d)"
    using ingest_loop_frames[of L "csv_files d" "[]" ?lg1] l by (simp add: tables_def)
  have g: "lg2 = ?lg1 @ map (file_event L) (csv_files d)"
    using ingest_loop_log[of L "csv_files d" "[]" ?lg1] l by simp
  show ?thesis using l f g by (simp add: ingest_data_def Let_def split: option.splits)
qed

lemma returned_ingest_data:
  "returned (ingest_data L (Dir d) lg) =
     (if tables d = [] then Inr empty_frame
      else (case concat_raises L (map (clean_file L) (tables d)) of
              Some e \<Rightarrow> Inl e
            | None \<Rightarrow> Inr (combine L (map (clean_file L) (tables d)))))"
  by (simp add: ingest_data_Dir returned_def split: option.splits)

lemma ingest_data_table:
  assumes "ingest_data L (Dir d) lg = Inr (out, lg')"
  shows "out = (if tables d = [] then empty_frame else combine L (map (clean_file L) (tables d)))"
  using assms by (auto simp: ingest_data_Dir split: if_splits option.splits)

lemma ingest_data_log:
  assumes "ingest_data L (Dir d) lg = Inr (out, lg')"
  shows "set (map (file_event L) (csv_files d)) \<subseteq> set lg'"
  using assms by (auto simp: ingest_data_Dir split: if_splits option.splits)

lemma tables_skip:
  assumes "\<not> accepted (snd e)"
  shows "tables (d1 @ e # d2) = tables (d1 @ d2)"
  using assms by (simp add: tables_def tables_of_def csv_files_def filter_sort)

lemma in_csv_files: "e \<in> set (csv_files d) \<longleftrightarrow> e \<in> set d \<and> is_csv (fst e)"
  by (auto simp: csv_files_def)

lemma tables_columns:
  "tb \<in> set (tables d) \<Longrightarrow> set required \<subseteq> set (columns tb)"
  by (auto simp: tables_def tables_of_def table_of_def accepted_def split: read_result.splits)

lemma cellv_update:
  "cellv (r\<lparr>cells := AList.update c v (cells r)\<rparr>) c' = (if c' = c then v else cellv r c')"
  by (simp add: cellv_def update_conv')

lemma cellv_reindex:
  "cellv \<lparr>idx = i, cells = map (\<lambda>c. (c, f c)) cols\<rparr> c = (if c \<in> set cols then f c else NA)"
  by (simp add: cellv_def map_of_map_restrict restrict_map_def)

lemma to_datetime_cases: "to_datetime L cs x = NA \<or> (\<exists>t. to_datetime L cs x = Time t)"
  by (cases "column_mode L cs"; cases x) (auto simp: to_datetime_def split: option.splits)

lemma convert_cell_number: "is_number (convert_cell L x)"
  by (cases x) (auto split: cell.splits)

lemma np_sort_mset: "sorts (quicksort L) \<Longrightarrow> mset (np_sort L key rs) = mset rs"
  by (simp add: np_sort_def sorts_def)

lemma np_sort_sorted: "sorts (quicksort L) \<Longrightarrow> sorted (map key (np_sort L key rs))"
  by (simp add: np_sort_def sorts_def)

lemma np_sort_set: "sorts (quicksort L) \<Longrightarrow> set (np_sort L key rs) = set rs"
  using np_sort_mset[of L key rs] by (metis set_mset_mset)

lemma np_sort_small: "length rs \<le> 16 \<Longrightarrow> np_sort L key rs = sort_key key rs"
  by (simp add: np_sort_def)

lemma rows_clean_file:
  "rows (clean_file L tb) =
     np_sort L (\<lambda>r. cell_rank (cellv r ''Timestamp''))
       (map (stamped L tb) (filter (ts_ok L tb) (rows tb)))"
  by (simp add: clean_file_def sort_values_def dropna_def assign_def Let_def cellv_update
      filter_map comp_def ts_ok_def[abs_def] stamped_def[abs_def])

lemma mset_rows_clean_file:
  "sorts (quicksort L) \<Longrightarrow>
   mset (rows (clean_file L tb)) = mset (map (stamped L tb) (filter (ts_ok L tb) (rows tb)))"
  by (simp add: rows_clean_file np_sort_mset)

lemma columns_clean_file:
  "''Timestamp'' \<in> set (columns tb) \<Longrightarrow> columns (clean_file L tb) = columns tb"
  by (simp add: clean_file_def sort_values_def dropna_def assign_def Let_def)

lemma columns_cleaned_tables:
  "map (\<lambda>tb. columns (clean_file L tb)) (tables d) = map columns (tables d)"
proof (rule map_cong[OF refl])
  fix tb assume "tb \<in> set (tables d)"
  then show "columns (clean_file L tb) = columns tb"
    using tables_columns[of tb d] by (simp add: columns_clean_file required_def)
qed

lemma set_uniq: "set (uniq xs) = set xs"
  by (simp add: uniq_def)

lemma map_zip_index: "map (\<lambda>(i, r). f r) (zip [0..<length rs] rs) = map f rs"
  by (induction rs rule: rev_induct) auto

lemma rows_set_index_concat:
  "rows (set_index ''Timestamp'' (concat_frames dfs)) =
     map (indexed_row (uniq (concat (map columns dfs))) (concat (map rows dfs))) (concat (map rows dfs))"
proof -
  let ?cols = "uniq (concat (map columns dfs))"
  let ?rs = "concat (map rows dfs)"
  have "rows (set_index ''Timestamp'' (concat_frames dfs))
      = map (\<lambda>(i, r). indexed_row ?cols ?rs r) (zip [0..<length ?rs] ?rs)"
    by (simp add: set_index_def concat_frames_def Let_def indexed_row_def comp_def
        split_def cellv_reindex)
  then show ?thesis by (simp add: map_zip_index)
qed

lemma rows_combine:
  "rows (combine L dfs) =
     filter (\<lambda>r. cellv r ''kWh'' \<noteq> NA)
       (map (final_row L (uniq (concat (map columns dfs))) (concat (map rows dfs)))
            (concat (map rows dfs)))"
  by (simp add: combine_def Let_def dropna_def assign_def rows_set_index_concat
      final_row_def[abs_def] comp_def)

lemma in_column_type_cases: "in_column_type cs v = v \<or> in_column_type cs v = as_float v"
  by (simp add: in_column_type_def)

lemma in_column_type_Time: "in_column_type cs (Time t) = Time t"
  by (simp add: in_column_type_def)

lemma numval_as_float: "numval (as_float v) = numval v"
  by (cases v) simp_all

lemma as_float_NA: "as_float v = NA \<longleftrightarrow> v = NA"
  by (cases v) simp_all

lemma as_float_idem: "as_float (as_float v) = as_float v"
  by (cases v) simp_all

lemma numval_in_column_type: "numval (in_column_type cs v) = numval v"
  by (simp add: in_column_type_def numval_as_float)

lemma in_column_type_NA: "in_column_type cs v = NA \<longleftrightarrow> v = NA"
  by (simp add: in_column_type_def as_float_NA)

lemma as_float_in_column_type: "as_float (in_column_type cs v) = as_float v"
  by (simp add: in_column_type_def as_float_idem)

lemma convert_as_float:
  "numval (convert_cell L (as_float v)) = numval (convert_cell L v)"
  "convert_cell L (as_float v) = NA \<longleftrightarrow> convert_cell L v = NA"
  by (cases v; simp)+

lemma convert_in_column_type:
  "numval (convert_cell L (in_column_type cs v)) = numval (convert_cell L v)"
  "convert_cell L (in_column_type cs v) = NA \<longleftrightarrow> convert_cell L v = NA"
  by (simp_all add: in_column_type_def convert_as_float)

lemma number_numval: "is_number c \<Longrightarrow> numval c = None \<longleftrightarrow> c = NA"
  by (cases c) simp_all

lemma to_numeric_numval: "numval (to_numeric L K v) = numval (convert_cell L v)"
  by (simp add: to_numeric_def numval_in_column_type)

lemma to_numeric_NA: "to_numeric L K v = NA \<longleftrightarrow> convert_cell L v = NA"
  by (simp add: to_numeric_def in_column_type_NA)

lemma to_numeric_number: "is_number (to_numeric L K v)"
  using convert_cell_number[of L v]
  by (cases "convert_cell L v") (simp_all add: to_numeric_def in_column_type_def)

lemma cellv_indexed_row:
  "cellv (indexed_row cols rs x) c =
     (if c \<in> set cols \<and> c \<noteq> ''Timestamp'' then in_column_type (column c rs) (cellv x c) else NA)"
  by (simp add: indexed_row_def cellv_def delete_conv' map_of_map_restrict restrict_map_def)

lemma idx_final_row:
  "''Timestamp'' \<in> set cols \<Longrightarrow>
   idx (final_row L cols rs x) = in_column_type (column ''Timestamp'' rs) (cellv x ''Timestamp'')"
  by (simp add: final_row_def indexed_row_def)

lemma cellv_final_row_kWh:
  "''kWh'' \<in> set cols \<Longrightarrow>
   numval (cellv (final_row L cols rs x) ''kWh'') = numval (convert_cell L (cellv x ''kWh''))
   \<and> (cellv (final_row L cols rs x) ''kWh'' = NA \<longleftrightarrow> convert_cell L (cellv x ''kWh'') = NA)
   \<and> is_number (cellv (final_row L cols rs x) ''kWh'')"
  by (simp add: final_row_def cellv_update cellv_indexed_row to_numeric_numval to_numeric_NA
      to_numeric_number convert_in_column_type)

lemma cellv_final_row_Building:
  "''Building'' \<in> set cols \<Longrightarrow>
   as_float (cellv (final_row L cols rs x) ''Building'') = as_float (cellv x ''Building'')"
  by (simp add: final_row_def cellv_update cellv_indexed_row as_float_in_column_type)

lemma cellv_stamped:
  "cellv (stamped L tb r) c =
     (if c = ''Timestamp'' then to_datetime L (column ''Timestamp'' (rows tb)) (cellv r ''Timestamp'')
      else cellv r c)"
  by (simp add: stamped_def cellv_update)

lemma rows_ingest_data:
  assumes "ingest_data L (Dir d) lg = Inr (out, lg')"
  shows "rows out =
     filter (\<lambda>r. cellv r ''kWh'' \<noteq> NA)
       (map (final_row L (uniq (concat (map columns (tables d)))) (cleaned_rows L (tables d)))
            (cleaned_rows L (tables d)))"
proof (cases "tables d = []")
  case True
  then show ?thesis
    using ingest_data_table[OF assms] by (simp add: empty_frame_def cleaned_rows_def)
next
  case False
  then show ?thesis
    using ingest_data_table[OF assms]
    by (simp add: rows_combine cleaned_rows_def comp_def columns_cleaned_tables)
qed

lemma set_cleaned_rows:
  assumes "sorts (quicksort L)"
  shows "set (cleaned_rows L tbs) =
         {stamped L tb r | r tb. tb \<in> set tbs \<and> r \<in> set (rows tb) \<and> ts_ok L tb r}"
  using assms by (auto simp: cleaned_rows_def rows_clean_file np_sort_set)

lemma length_filter_mset:
  "mset xs = mset ys \<Longrightarrow> length (filter P xs) = length (filter P ys)"
proof -
  assume "mset xs = mset ys"
  then have "mset (filter P xs) = mset (filter P ys)" by simp
  then show ?thesis by (rule mset_eq_length)
qed

lemma length_cleaned_filter:
  assumes "sorts (quicksort L)"
  shows "length (filter (\<lambda>r. convert_cell L (cellv r ''kWh'') \<noteq> NA) (cleaned_rows L tbs)) =
         length (good_rows L tbs)"
proof (induction tbs)
  case Nil
  show ?case by (simp add: cleaned_rows_def good_rows_def)
next
  case (Cons tb tbs)
  let ?Q = "\<lambda>r. convert_cell L (cellv r ''kWh'') \<noteq> NA"
  have "length (filter ?Q (rows (clean_file L tb))) =
        length (filter ?Q (map (stamped L tb) (filter (ts_ok L tb) (rows tb))))"
    by (rule length_filter_mset[OF mset_rows_clean_file[OF assms]])
  also have "\<dots> = length (filter (\<lambda>r. ts_ok L tb r \<and> num_ok L r) (rows tb))"
    by (simp add: filter_map comp_def cellv_stamped num_ok_def conj_commute)
  finally show ?case using Cons by (simp add: cleaned_rows_def good_rows_def)
qed

text \<open>
  What ingestion returns from a directory: every row has a timestamp as index and a
  number under \<open>kWh\<close>; there are as many rows as the files read have rows with a
  timestamp that parses and a numeric value; and every such row is there.
\<close>

lemma ingest_rows_wellformed:
  assumes s: "sorts (quicksort L)" and i: "ingest_data L (Dir d) lg = Inr (out, lg')"
    and r': "r' \<in> set (rows out)"
  shows "(\<exists>t. idx r' = Time t) \<and> (\<exists>v. numval (cellv r' ''kWh'') = Some v)"
proof -
  let ?cols = "uniq (concat (map columns (tables d)))"
  let ?rs = "cleaned_rows L (tables d)"
  from r' obtain x where x: "x \<in> set ?rs"
    and fr: "r' = final_row L ?cols ?rs x" and na: "cellv r' ''kWh'' \<noteq> NA"
    by (auto simp: rows_ingest_data[OF i])
  from x obtain r tb where tb: "tb \<in> set (tables d)" and r: "ts_ok L tb r" and xr: "x = stamped L tb r"
    by (auto simp: set_cleaned_rows[OF s])
  have c: "''Timestamp'' \<in> set ?cols" "''kWh'' \<in> set ?cols"
    using tables_columns[OF tb] tb by (auto simp: required_def set_uniq)
  obtain t where t: "to_datetime L (column ''Timestamp'' (rows tb)) (cellv r ''Timestamp'') = Time t"
    using r to_datetime_cases[of L "column ''Timestamp'' (rows tb)" "cellv r ''Timestamp''"]
    by (auto simp: ts_ok_def)
  have "idx r' = Time t"
    using c by (simp add: fr xr idx_final_row cellv_stamped t in_column_type_Time)
  moreover have "numval (cellv r' ''kWh'') \<noteq> None"
  proof -
    have "is_number (cellv r' ''kWh'')"
      using cellv_final_row_kWh[OF c(2), of L ?rs x] by (simp add: fr)
    with na show ?thesis by (simp add: number_numval)
  qed
  ultimately show ?thesis by auto
qed

lemma ingest_row_count:
  assumes s: "sorts (quicksort L)" and i: "ingest_data L (Dir d) lg = Inr (out, lg')"
  shows "length (rows out) = length (good_rows L (tables d))"
proof (cases "tables d = []")
  case True
  then show ?thesis by (simp add: rows_ingest_data[OF i] cleaned_rows_def good_rows_def)
next
  case False
  let ?cols = "uniq (concat (map columns (tables d)))"
  from False obtain tb where "tb \<in> set (tables d)" by (cases "tables d") auto
  then have k: "''kWh'' \<in> set ?cols"
    using tables_columns[of tb d] by (auto simp: required_def set_uniq)
  have "length (rows out) =
      length (filter (\<lambda>r. convert_cell L (cellv r ''kWh'') \<noteq> NA) (cleaned_rows L (tables d)))"
    using cellv_final_row_kWh[OF k]
    by (simp add: rows_ingest_data[OF i] filter_map comp_def)
  then show ?thesis by (simp add: length_cleaned_filter[OF s])
qed

lemma ingest_keeps_good_rows:
  assumes s: "sorts (quicksort L)" and i: "ingest_data L (Dir d) lg = Inr (out, lg')"
    and tb: "tb \<in> set (tables d)" and r: "r \<in> set (rows tb)"
    and ok: "ts_ok L tb r" "num_ok L r"
  shows "\<exists>r' \<in> set (rows out).
           idx r' = to_datetime L (column ''Timestamp'' (rows tb)) (cellv r ''Timestamp'')
         \<and> numval (cellv r' ''kWh'') = numval (convert_cell L (cellv r ''kWh''))
         \<and> as_float (cellv r' ''Building'') = as_float (cellv r ''Building'')"
proof -
  let ?cols = "uniq (concat (map columns (tables d)))"
  let ?rs = "cleaned_rows L (tables d)"
  have c: "''Timestamp'' \<in> set ?cols" "''kWh'' \<in> set ?cols" "''Building'' \<in> set ?cols"
    using tables_columns[OF tb] tb by (auto simp: required_def set_uniq)
  have x: "stamped L tb r \<in> set ?rs"
    using tb r ok by (auto simp: set_cleaned_rows[OF s])
  let ?r' = "final_row L ?cols ?rs (stamped L tb r)"
  obtain t where t: "to_datetime L (column ''Timestamp'' (rows tb)) (cellv r ''Timestamp'') = Time t"
    using ok(1) to_datetime_cases[of L "column ''Timestamp'' (rows tb)" "cellv r ''Timestamp''"]
    by (auto simp: ts_ok_def)
  note kf = cellv_final_row_kWh[OF c(2), of L ?rs "stamped L tb r"]
  have k: "numval (cellv ?r' ''kWh'') = numval (convert_cell L (cellv r ''kWh''))"
    using kf by (simp add: cellv_stamped)
  have n: "cellv ?r' ''kWh'' \<noteq> NA"
    using kf ok(2) by (simp add: cellv_stamped num_ok_def)
  have ix: "idx ?r' = to_datetime L (column ''Timestamp'' (rows tb)) (cellv r ''Timestamp'')"
    using c by (simp add: idx_final_row cellv_stamped t in_column_type_Time)
  have g: "as_float (cellv ?r' ''Building'') = as_float (cellv r ''Building'')"
    using c by (simp add: cellv_final_row_Building cellv_stamped)
  have "?r' \<in> set (rows out)"
    using x n by (simp add: rows_ingest_data[OF i])
  with k ix g show ?thesis by blast
qed

lemma sorts_sort_key: "sorts sort_key"
  by (simp add: sorts_def)

lemma sorts_demo_lib: "sorts (quicksort demo_lib)"
  by (simp add: demo_lib_def sorts_sort_key)



text \<open>
  A path on which \<open>exists()\<close> raises: line 36 is outside every \<open>try\<close>, and
  \<open>ingest_data\<close> raises.
\<close>

theorem ingest_bad_location_counterexample:
  "ingest_data demo_lib ProbeFails [] = Inl OSError"
  by code_simp

text \<open>
  Claim C3, as the code has it. For a path that does not exist \<open>ingest_data\<close> returns
  the empty table and logs an error; for a directory with no CSV file it returns the
  empty table and logs warnings. A file whose read fails is skipped and nothing else
  changes: the run returns the table (or raises the exception) of the directory without
  that file, an error naming the file is logged, and the table returned has the rows of
  the remaining files: as many rows as they have good rows, each of them in it. An
  exception raised by \<open>exists()\<close>, by \<open>glob\<close> or by a library call of lines 75 to 80 is
  not caught: \<open>ingest_data\<close> raises it.
\<close>

theorem ingest_bad_location:
  "ingest_data L Missing lg = Inr (empty_frame, lg @ [(ERROR, DirMissing)])
   \<and> (csv_files d = [] \<longrightarrow>
        ingest_data L (Dir d) lg = Inr (empty_frame, lg @ [(WARNING, NoCsvFiles), (WARNING, NoValidData)]))
   \<and> (read_failed res \<longrightarrow>
        returned (ingest_data L (Dir (d1 @ (name, res) # d2)) lg) = returned (ingest_data L (Dir (d1 @ d2)) lg)
      \<and> (ingest_data L (Dir (d1 @ (name, res) # d2)) lg = Inr (out, lg') \<longrightarrow>
            (is_csv name \<longrightarrow> (ERROR, FileNotFound name) \<in> set lg' \<or> (ERROR, ErrorReading name) \<in> set lg')
          \<and> (sorts (quicksort L) \<longrightarrow>
                length (rows out) = length (good_rows L (tables (d1 @ d2)))
              \<and> (\<forall>tb \<in> set (tables (d1 @ d2)). \<forall>r \<in> set (rows tb). ts_ok L tb r \<and> num_ok L r \<longrightarrow>
                    (\<exists>r' \<in> set (rows out).
                        idx r' = to_datetime L (column ''Timestamp'' (rows tb)) (cellv r ''Timestamp'')
                      \<and> numval (cellv r' ''kWh'') = numval (convert_cell L (cellv r ''kWh''))
                      \<and> as_float (cellv r' ''Building'') = as_float (cellv r ''Building''))))))
   \<and> ingest_data L ProbeFails lg = Inl OSError
   \<and> ingest_data L ListingFails lg = Inl OSError
   \<and> (tables d \<noteq> [] \<and> concat_raises L (map (clean_file L) (tables d)) = Some e \<longrightarrow>
        ingest_data L (Dir d) lg = Inl e)"
proof -
  have a: "ingest_data L Missing lg = Inr (empty_frame, lg @ [(ERROR, DirMissing)])"
    by (simp add: ingest_data_def)
  have b: "ingest_data L (Dir d) lg = Inr (empty_frame, lg @ [(WARNING, NoCsvFiles), (WARNING, NoValidData)])"
    if "csv_files d = []"
    using that by (simp add: ingest_data_def)
  have t: "tables (d1 @ (name, res) # d2) = tables (d1 @ d2)" if "read_failed res"
    using that by (intro tables_skip) (auto simp: read_failed_def accepted_def split: read_result.splits)
  have c: "returned (ingest_data L (Dir (d1 @ (name, res) # d2)) lg) = returned (ingest_data L (Dir (d1 @ d2)) lg)"
    if "read_failed res"
    unfolding returned_ingest_data t[OF that] by (rule refl)
  have ev: "(ERROR, FileNotFound name) \<in> set lg' \<or> (ERROR, ErrorReading name) \<in> set lg'"
    if f: "read_failed res" and n: "is_csv name"
      and i: "ingest_data L (Dir (d1 @ (name, res) # d2)) lg = Inr (out, lg')"
  proof -
    have m: "(name, res) \<in> set (csv_files (d1 @ (name, res) # d2))"
      using n by (simp add: in_csv_files)
    have "file_event L (name, res) = (ERROR, FileNotFound name) \<or> file_event L (name, res) = (ERROR, ErrorReading name)"
      using f by (auto simp: file_event_def read_failed_def split: read_result.splits)
    moreover have "file_event L (name, res) \<in> set lg'"
      using m ingest_data_log[OF i] by auto
    ultimately show ?thesis by auto
  qed
  have cnt: "length (rows out) = length (good_rows L (tables (d1 @ d2)))"
    if f: "read_failed res" and s: "sorts (quicksort L)"
      and i: "ingest_data L (Dir (d1 @ (name, res) # d2)) lg = Inr (out, lg')"
    using ingest_row_count[OF s i] t[OF f] by simp
  have keep: "\<forall>tb \<in> set (tables (d1 @ d2)). \<forall>r \<in> set (rows tb). ts_ok L tb r \<and> num_ok L r \<longrightarrow>
                    (\<exists>r' \<in> set (rows out).
                        idx r' = to_datetime L (column ''Timestamp'' (rows tb)) (cellv r ''Timestamp'')
                      \<and> numval (cellv r' ''kWh'') = numval (convert_cell L (cellv r ''kWh''))
                      \<and> as_float (cellv r' ''Building'') = as_float (cellv r ''Building''))"
    if f: "read_failed res" and s: "sorts (quicksort L)"
      and i: "ingest_data L (Dir (d1 @ (name, res) # d2)) lg = Inr (out, lg')"
    using ingest_keeps_good_rows[OF s i] t[OF f] by simp
  have p: "ingest_data L ProbeFails lg = Inl OSError" "ingest_data L ListingFails lg = Inl OSError"
    by (simp_all add: ingest_data_def)
  have r: "ingest_data L (Dir d) lg = Inl e"
    if "tables d \<noteq> []" "concat_raises L (map (clean_file L) (tables d)) = Some e"
    using that by (simp add: ingest_data_Dir)
  from a b c ev cnt keep p r show ?thesis by blast
qed

theorem ingest_bad_location_witness:
  "csv_files [(''notes.txt'', Parsed demo_file)] = []
   \<and> ingest_data demo_lib (Dir [(''notes.txt'', Parsed demo_file)]) [] =
       Inr (empty_frame, [(WARNING, NoCsvFiles), (WARNING, NoValidData)])
   \<and> read_failed OtherError \<and> is_csv ''b.csv'' \<and> sorts (quicksort demo_lib)
   \<and> ingest_data demo_lib (Dir demo_dir) [] = Inr (projr (ingest_data demo_lib (Dir demo_dir) []))
   \<and> returned (ingest_data demo_lib (Dir demo_dir) []) = returned (ingest_data demo_lib (Dir (tl demo_dir)) [])
   \<and> ((ERROR, FileNotFound ''b.csv'') \<in> set (snd (projr (ingest_data demo_lib (Dir demo_dir) [])))
      \<or> (ERROR, ErrorReading ''b.csv'') \<in> set (snd (projr (ingest_data demo_lib (Dir demo_dir) []))))
   \<and> length (rows (fst (projr (ingest_data demo_lib (Dir demo_dir) [])))) = 3
   \<and> tables [(''a.csv'', Parsed demo_file)] \<noteq> []
   \<and> concat_raises (demo_lib\<lparr>concat_raises := (\<lambda>tbs. Some TypeError)\<rparr>)
        (map (clean_file (demo_lib\<lparr>concat_raises := (\<lambda>tbs. Some TypeError)\<rparr>)) (tables [(''a.csv'', Parsed demo_file)]))
        = Some TypeError
   \<and> ingest_data (demo_lib\<lparr>concat_raises := (\<lambda>tbs. Some TypeError)\<rparr>) (Dir [(''a.csv'', Parsed demo_file)]) []
        = Inl TypeError"
proof -
  let ?o = "projr (ingest_data demo_lib (Dir demo_dir) [])"
  let ?L = "demo_lib\<lparr>concat_raises := (\<lambda>tbs. Some TypeError)\<rparr>"
  have h1: "csv_files [(''notes.txt'', Parsed demo_file)] = []" by code_simp
  have h2: "read_failed OtherError" by (simp add: read_failed_def)
  have h3: "is_csv ''b.csv''" by code_simp
  note s = sorts_demo_lib
  have i: "ingest_data demo_lib (Dir demo_dir) [] = Inr (fst ?o, snd ?o)" by code_simp
  have d: "demo_dir = [] @ (''b.csv'', OtherError) # tl demo_dir" by (simp add: demo_dir_def)
  have n: "length (good_rows demo_lib (tables ([] @ tl demo_dir))) = 3" by code_simp
  have k1: "tables [(''a.csv'', Parsed demo_file)] \<noteq> []" by code_simp
  have k2: "concat_raises ?L (map (clean_file ?L) (tables [(''a.csv'', Parsed demo_file)])) = Some TypeError"
    by simp
  note t = ingest_bad_location[of demo_lib "[]" "[(''notes.txt'', Parsed demo_file)]"
      OtherError "[]" "''b.csv''" "tl demo_dir" "fst ?o" "snd ?o" TypeError]
  from t h1 have a: "ingest_data demo_lib (Dir [(''notes.txt'', Parsed demo_file)]) [] =
       Inr (empty_frame, [(WARNING, NoCsvFiles), (WARNING, NoValidData)])"
    by simp
  from t h2 d[symmetric] have b: "returned (ingest_data demo_lib (Dir demo_dir) []) =
       returned (ingest_data demo_lib (Dir (tl demo_dir)) [])"
    by simp
  from t h2 h3 i d[symmetric] have c: "(ERROR, FileNotFound ''b.csv'') \<in> set (snd ?o)
      \<or> (ERROR, ErrorReading ''b.csv'') \<in> set (snd ?o)"
    by simp
  from t h2 s i d[symmetric] n have e: "length (rows (fst ?o)) = 3"
    by simp
  from ingest_bad_location[of ?L "[]" "[(''a.csv'', Parsed demo_file)]" OtherError "[]" "''b.csv''" "[]"
      "fst ?o" "snd ?o" TypeError] k1 k2
  have f: "ingest_data ?L (Dir [(''a.csv'', Parsed demo_file)]) [] = Inl TypeError"
    by blast
  from h1 h2 h3 s i a b c e k1 k2 f show ?thesis by simp
qed

text \<open>
  Claim C4. A file that lacks one of the columns \<open>Timestamp\<close>, \<open>Building\<close> and
  \<open>kWh\<close> is skipped as a whole and nothing else changes: the run returns the table
  (or raises the exception) of the directory without that file, and a warning that
  names the file and a column it lacks is logged. The table returned has the rows of
  the other files that have the three columns and no other: it has as many rows as
  those files have good rows, and each of their good rows is in it.
\<close>

theorem ingest_skips_incomplete_file:
  "c \<in> set required \<and> c \<notin> set (columns tb) \<longrightarrow>
     returned (ingest_data L (Dir (d1 @ (name, Parsed tb) # d2)) lg) = returned (ingest_data L (Dir (d1 @ d2)) lg)
   \<and> (ingest_data L (Dir (d1 @ (name, Parsed tb) # d2)) lg = Inr (out, lg') \<longrightarrow>
        (is_csv name \<longrightarrow>
           (\<exists>c' \<in> set required. c' \<notin> set (columns tb) \<and> (WARNING, MissingColumn c' name) \<in> set lg'))
      \<and> (sorts (quicksort L) \<longrightarrow>
            length (rows out) = length (good_rows L (tables (d1 @ d2)))
          \<and> (\<forall>tb' \<in> set (tables (d1 @ d2)). \<forall>r \<in> set (rows tb'). ts_ok L tb' r \<and> num_ok L r \<longrightarrow>
                (\<exists>r' \<in> set (rows out).
                    idx r' = to_datetime L (column ''Timestamp'' (rows tb')) (cellv r ''Timestamp'')
                  \<and> numval (cellv r' ''kWh'') = numval (convert_cell L (cellv r ''kWh''))
                  \<and> as_float (cellv r' ''Building'') = as_float (cellv r ''Building'')))))"
proof (intro impI, elim conjE)
  assume c: "c \<in> set required" "c \<notin> set (columns tb)"
  have t: "tables (d1 @ (name, Parsed tb) # d2) = tables (d1 @ d2)"
    using c by (intro tables_skip) (auto simp: accepted_def)
  have f: "returned (ingest_data L (Dir (d1 @ (name, Parsed tb) # d2)) lg) = returned (ingest_data L (Dir (d1 @ d2)) lg)"
    unfolding returned_ingest_data t by (rule refl)
  have w: "\<exists>c' \<in> set required. c' \<notin> set (columns tb) \<and> (WARNING, MissingColumn c' name) \<in> set lg'"
    if n: "is_csv name" and i: "ingest_data L (Dir (d1 @ (name, Parsed tb) # d2)) lg = Inr (out, lg')"
  proof -
    have "filter (\<lambda>c. c \<notin> set (columns tb)) required \<noteq> []"
      using c by (auto simp: filter_empty_conv)
    then obtain c' cs where cs: "filter (\<lambda>c. c \<notin> set (columns tb)) required = c' # cs"
      by (cases "filter (\<lambda>c. c \<notin> set (columns tb)) required") auto
    then have "c' \<in> set (filter (\<lambda>c. c \<notin> set (columns tb)) required)" by simp
    then have c': "c' \<in> set required" "c' \<notin> set (columns tb)" by auto
    have ev: "file_event L (name, Parsed tb) = (WARNING, MissingColumn c' name)"
      using cs by (simp add: file_event_def)
    have "(name, Parsed tb) \<in> set (csv_files (d1 @ (name, Parsed tb) # d2))"
      using n by (simp add: in_csv_files)
    then have "file_event L (name, Parsed tb) \<in> set lg'"
      using ingest_data_log[OF i] by auto
    with ev c' show ?thesis by auto
  qed
  have cnt: "length (rows out) = length (good_rows L (tables (d1 @ d2)))"
    if s: "sorts (quicksort L)"
      and i: "ingest_data L (Dir (d1 @ (name, Parsed tb) # d2)) lg = Inr (out, lg')"
    using ingest_row_count[OF s i] t by simp
  have keep: "\<forall>tb' \<in> set (tables (d1 @ d2)). \<forall>r \<in> set (rows tb'). ts_ok L tb' r \<and> num_ok L r \<longrightarrow>
                (\<exists>r' \<in> set (rows out).
                    idx r' = to_datetime L (column ''Timestamp'' (rows tb')) (cellv r ''Timestamp'')
                  \<and> numval (cellv r' ''kWh'') = numval (convert_cell L (cellv r ''kWh''))
                  \<and> as_float (cellv r' ''Building'') = as_float (cellv r ''Building''))"
    if s: "sorts (quicksort L)"
      and i: "ingest_data L (Dir (d1 @ (name, Parsed tb) # d2)) lg = Inr (out, lg')"
    using ingest_keeps_good_rows[OF s i] t by simp
  from f w cnt keep
  show "returned (ingest_data L (Dir (d1 @ (name, Parsed tb) # d2)) lg) = returned (ingest_data L (Dir (d1 @ d2)) lg)
   \<and> (ingest_data L (Dir (d1 @ (name, Parsed tb) # d2)) lg = Inr (out, lg') \<longrightarrow>
        (is_csv name \<longrightarrow>
           (\<exists>c' \<in> set required. c' \<notin> set (columns tb) \<and> (WARNING, MissingColumn c' name) \<in> set lg'))
      \<and> (sorts (quicksort L) \<longrightarrow>
            length (rows out) = length (good_rows L (tables (d1 @ d2)))
          \<and> (\<forall>tb' \<in> set (tables (d1 @ d2)). \<forall>r \<in> set (rows tb'). ts_ok L tb' r \<and> num_ok L r \<longrightarrow>
                (\<exists>r' \<in> set (rows out).
                    idx r' = to_datetime L (column ''Timestamp'' (rows tb')) (cellv r ''Timestamp'')
                  \<and> numval (cellv r' ''kWh'') = numval (convert_cell L (cellv r ''kWh''))
                  \<and> as_float (cellv r' ''Building'') = as_float (cellv r ''Building'')))))"
    by blast
qed

theorem ingest_skips_incomplete_file_witness:
  "''kWh'' \<in> set required \<and> ''kWh'' \<notin> set (columns demo_short) \<and> is_csv ''c.csv''
   \<and> sorts (quicksort demo_lib)
   \<and> ingest_data demo_lib (Dir demo_dir) [] = Inr (projr (ingest_data demo_lib (Dir demo_dir) []))
   \<and> returned (ingest_data demo_lib (Dir demo_dir) []) =
       returned (ingest_data demo_lib
             (Dir [(''b.csv'', OtherError), (''a.csv'', Parsed demo_file), (''notes.txt'', Parsed demo_file)]) [])
   \<and> (\<exists>c' \<in> set required. c' \<notin> set (columns demo_short)
         \<and> (WARNING, MissingColumn c' ''c.csv'') \<in> set (snd (projr (ingest_data demo_lib (Dir demo_dir) []))))
   \<and> length (rows (fst (projr (ingest_data demo_lib (Dir demo_dir) [])))) = 3
   \<and> demo_file \<in> set (tables [(''b.csv'', OtherError), (''a.csv'', Parsed demo_file), (''notes.txt'', Parsed demo_file)])
   \<and> (\<exists>r' \<in> set (rows (fst (projr (ingest_data demo_lib (Dir demo_dir) [])))).
          idx r' = Time 1704106800000000000 \<and> numval (cellv r' ''kWh'') = Some 20
        \<and> as_float (cellv r' ''Building'') = Str ''A'')"
proof -
  let ?o = "projr (ingest_data demo_lib (Dir demo_dir) [])"
  let ?d1 = "[(''b.csv'', OtherError), (''a.csv'', Parsed demo_file)]"
  let ?d2 = "[(''notes.txt'', Parsed demo_file)]"
  let ?r = "csv_row 0 ''2024-01-01 11:00:00'' ''A'' ''20''"
  have h1: "''kWh'' \<in> set required" by (simp add: required_def)
  have h2: "''kWh'' \<notin> set (columns demo_short)" by (simp add: demo_short_def)
  have h3: "is_csv ''c.csv''" by code_simp
  note s = sorts_demo_lib
  have i: "ingest_data demo_lib (Dir demo_dir) [] = Inr (fst ?o, snd ?o)" by code_simp
  have d: "demo_dir = ?d1 @ (''c.csv'', Parsed demo_short) # ?d2"
    by (simp add: demo_dir_def)
  have n: "length (good_rows demo_lib (tables (?d1 @ ?d2))) = 3" by code_simp
  have m: "demo_file \<in> set (tables (?d1 @ ?d2))" by code_simp
  have r: "?r \<in> set (rows demo_file)" by (simp add: demo_file_def)
  have ok: "ts_ok demo_lib demo_file ?r" "num_ok demo_lib ?r" by code_simp+
  have v1: "to_datetime demo_lib (column ''Timestamp'' (rows demo_file)) (cellv ?r ''Timestamp'')
      = Time 1704106800000000000" by code_simp
  have v2: "numval (convert_cell demo_lib (cellv ?r ''kWh'')) = Some 20" by code_simp
  have v3: "as_float (cellv ?r ''Building'') = Str ''A''" by code_simp
  note t = ingest_skips_incomplete_file[of "''kWh''" demo_short demo_lib ?d1 "''c.csv''" ?d2 "[]"
      "fst ?o" "snd ?o"]
  from t h1 h2 d[symmetric] have a: "returned (ingest_data demo_lib (Dir demo_dir) []) =
       returned (ingest_data demo_lib (Dir (?d1 @ ?d2)) [])"
    by simp
  from t h1 h2 h3 i d[symmetric]
  have b: "\<exists>c' \<in> set required. c' \<notin> set (columns demo_short)
         \<and> (WARNING, MissingColumn c' ''c.csv'') \<in> set (snd ?o)"
    by simp
  from t h1 h2 s i d[symmetric] n have c: "length (rows (fst ?o)) = 3"
    by simp
  have i': "ingest_data demo_lib (Dir (?d1 @ (''c.csv'', Parsed demo_short) # ?d2)) [] = Inr (fst ?o, snd ?o)"
    using i by (simp add: demo_dir_def)
  from t h1 h2 s i' m r ok
  have "\<exists>r' \<in> set (rows (fst ?o)).
      idx r' = to_datetime demo_lib (column ''Timestamp'' (rows demo_file)) (cellv ?r ''Timestamp'')
    \<and> numval (cellv r' ''kWh'') = numval (convert_cell demo_lib (cellv ?r ''kWh''))
    \<and> as_float (cellv r' ''Building'') = as_float (cellv ?r ''Building'')"
    by blast
  then have e: "\<exists>r' \<in> set (rows (fst ?o)).
      idx r' = Time 1704106800000000000 \<and> numval (cellv r' ''kWh'') = Some 20
      \<and> as_float (cellv r' ''Building'') = Str ''A''"
    by (simp only: v1 v2 v3)
  from h1 h2 h3 s i a b c m e show ?thesis by simp
qed

text \<open>
  A table that ingestion returns has the form the aggregations expect, unless it is
  empty.
\<close>

lemma columns_combine:
  "columns (combine L dfs) =
     (let cs = removeAll ''Timestamp'' (uniq (concat (map columns dfs)))
      in if ''kWh'' \<in> set cs then cs else cs @ [''kWh''])"
  by (simp add: combine_def dropna_def assign_def set_index_def concat_frames_def Let_def)

lemma columns_ingest_data:
  assumes "ingest_data L (Dir d) lg = Inr (out, lg')" and "tb \<in> set (tables d)"
  shows "columns out = removeAll ''Timestamp'' (uniq (concat (map columns (tables d))))"
proof -
  have t: "tables d \<noteq> []" using assms(2) by auto
  have "set (columns tb) \<subseteq> set (concat (map columns (tables d)))"
    using assms(2) by auto
  then have "''kWh'' \<in> set (removeAll ''Timestamp'' (uniq (concat (map columns (tables d)))))"
    using tables_columns[OF assms(2)] by (auto simp: required_def set_uniq)
  then show ?thesis using t ingest_data_table[OF assms(1)]
    by (simp add: columns_combine comp_def columns_cleaned_tables Let_def)
qed

lemma ingest_data_combined:
  assumes s: "sorts (quicksort L)" and i: "ingest_data L (Dir d) lg = Inr (out, lg')"
    and ne: "\<not> is_empty out"
  shows "combined_table out"
proof -
  have t: "tables d \<noteq> []"
    using ne ingest_data_table[OF i] by (auto simp: is_empty_def empty_frame_def)
  then obtain tb where tb: "tb \<in> set (tables d)" by (cases "tables d") auto
  have "set (columns tb) \<subseteq> set (concat (map columns (tables d)))"
    using tb by auto
  then have c: "''Building'' \<in> set (columns out)" "''kWh'' \<in> set (columns out)"
    using tables_columns[OF tb] by (auto simp: columns_ingest_data[OF i tb] required_def set_uniq)
  have ix: "datetime_index out"
    unfolding datetime_index_def list_all_iff
  proof
    fix r assume "r \<in> set (rows out)"
    from ingest_rows_wellformed[OF s i this] show "case idx r of Time _ \<Rightarrow> True | _ \<Rightarrow> False"
      by auto
  qed
  have n: "list_all (\<lambda>r. numval (cellv r ''kWh'') \<noteq> None) (rows out)"
    unfolding list_all_iff
  proof
    fix r assume "r \<in> set (rows out)"
    from ingest_rows_wellformed[OF s i this] show "numval (cellv r ''kWh'') \<noteq> None"
      by auto
  qed
  from c ix n show ?thesis by (simp add: combined_table_def)
qed

subsection \<open>Summary statistics\<close>

lemma combined_numeric: "combined_table d \<Longrightarrow> numeric_column ''kWh'' d"
proof -
  assume c: "combined_table d"
  have "is_number (cellv r ''kWh'')" if "r \<in> set (rows d)" for r
    using c that by (cases "cellv r ''kWh''") (auto simp: combined_table_def list_all_iff)
  then show ?thesis by (simp add: numeric_column_def column_def list_all_iff)
qed

lemma combined_all_num:
  "combined_table d \<Longrightarrow> r \<in> set (rows d) \<Longrightarrow> \<exists>v. numval (cellv r ''kWh'') = Some v"
  by (auto simp: combined_table_def list_all_iff)

lemma set_group_keys:
  "set (group_keys c rs) = {cellv r c | r. r \<in> set rs} - {NA}"
  by (auto simp: group_keys_def column_def)

lemma distinct_group_keys: "distinct (group_keys c rs)"
  by (simp add: group_keys_def)

lemma num_vals_set:
  "set (num_vals c g) = {v. \<exists>r \<in> set g. numval (cellv r c) = Some v}"
  by (auto simp: num_vals_def split: option.splits)

lemma building_vals_nonempty:
  assumes "combined_table d" and "k \<in> set (group_keys ''Building'' (rows d))"
  shows "building_vals d k \<noteq> []"
proof -
  from assms(2) obtain r where r: "r \<in> set (rows d)" "cellv r ''Building'' = k"
    by (auto simp: set_group_keys)
  then have g: "r \<in> set (group_rows ''Building'' k (rows d))"
    by (simp add: group_rows_def)
  from combined_all_num[OF assms(1) r(1)] obtain v where "numval (cellv r ''kWh'') = Some v" by blast
  with g have "v \<in> set (building_vals d k)"
    by (auto simp: building_vals_def num_vals_set)
  then show ?thesis by auto
qed

lemma int_column_vals:
  assumes "int_column ''kWh'' d" and "v \<in> set (building_vals d k)"
  shows "v \<in> \<int>"
proof -
  from assms(2) obtain r where r: "r \<in> set (rows d)" "numval (cellv r ''kWh'') = Some v"
    by (auto simp: building_vals_def num_vals_set group_rows_def)
  from assms(1) r(1) have "is_int (cellv r ''kWh'')"
    by (auto simp: int_column_def column_def list_all_iff)
  with r(2) show ?thesis by (cases "cellv r ''kWh''") auto
qed

lemma sum_list_Ints: "(\<And>v. v \<in> set vs \<Longrightarrow> v \<in> \<int>) \<Longrightarrow> sum_list vs \<in> (\<int> :: rat set)"
  by (induction vs) auto

lemma numval_as_dtype: "(it \<Longrightarrow> v \<in> \<int>) \<Longrightarrow> numval (as_dtype it v) = Some v"
  by (auto simp: as_dtype_def elim: Ints_cases)

lemma agg_min_Min:
  assumes "vs \<noteq> []"
  shows "agg_min it vs = as_dtype it (Min (set vs))"
proof (cases vs)
  case Nil
  with assms show ?thesis by simp
next
  case (Cons v ws)
  then show ?thesis using Min.set_eq_fold[of v ws] by (simp add: agg_min_def)
qed

lemma agg_max_Max:
  assumes "vs \<noteq> []"
  shows "agg_max it vs = as_dtype it (Max (set vs))"
proof (cases vs)
  case Nil
  with assms show ?thesis by simp
next
  case (Cons v ws)
  then show ?thesis using Max.set_eq_fold[of v ws] by (simp add: agg_max_def)
qed

lemma wrap64_in_range: "- (2 ^ 63) \<le> x \<Longrightarrow> x < 2 ^ 63 \<Longrightarrow> wrap64 x = x"
  by (simp add: wrap64_def)

lemma sort_values_desc_all_present:
  assumes "\<forall>r \<in> set (rows f). cellv r c \<noteq> NA"
  shows "rows (sort_values L c False f) = rev (np_sort L (\<lambda>r. cell_rank (cellv r c)) (rev (rows f)))"
proof -
  have "filter (\<lambda>r. cellv r c \<noteq> NA) (rows f) = rows f"
    using assms by (simp add: filter_id_conv)
  moreover have "filter (\<lambda>r. cellv r c = NA) (rows f) = []"
    using assms by (simp add: filter_empty_conv)
  ultimately show ?thesis by (simp add: sort_values_def Let_def)
qed

lemma mset_desc_sort:
  "sorts (quicksort L) \<Longrightarrow> mset (rev (np_sort L k (rev xs))) = mset xs"
  by (simp add: np_sort_mset)

lemma distinct_map_desc_sort:
  assumes "sorts (quicksort L)"
  shows "distinct (map f (rev (np_sort L k (rev xs)))) = distinct (map f xs)"
proof -
  have "mset (map f (rev (np_sort L k (rev xs)))) = mset (map f xs)"
    using mset_desc_sort[OF assms, of k xs] by (metis mset_map)
  then show ?thesis by (rule mset_eq_imp_distinct_iff)
qed

lemma sorted_desc_sort:
  assumes "sorts (quicksort L)"
  shows "sorted_wrt (\<lambda>a b. k b \<le> k a) (rev (np_sort L k (rev xs)))"
proof -
  have "sorted (map k (np_sort L k (rev xs)))" by (rule np_sort_sorted[OF assms])
  then have "sorted_wrt (\<lambda>a b. k a \<le> k b) (np_sort L k (rev xs))"
    by (simp add: sorted_map)
  then show ?thesis by (simp add: sorted_wrt_rev)
qed

lemma rank_le_numval:
  assumes "numval a = Some x" and "numval b = Some y"
  shows "cell_rank a \<le> cell_rank b \<longleftrightarrow> x \<le> y"
  using assms by (cases a; cases b) (auto simp: less_eq_prod_def)

lemma summary_of_combined:
  assumes "combined_table d"
  shows "summary_of L d = Inr (sort_values L ''total_kWh'' False
           \<lparr>columns = [''mean_kWh'', ''min_kWh'', ''max_kWh'', ''total_kWh''],
            rows = map (stats_row d) (group_keys ''Building'' (rows d))\<rparr>)"
  using assms combined_numeric[OF assms]
  by (simp add: summary_of_def combined_table_def Let_def stats_row_def[abs_def] building_vals_def)

lemma cellv_stats_row:
  "cellv (stats_row d k) ''mean_kWh'' = agg_mean (building_vals d k)"
  "cellv (stats_row d k) ''min_kWh'' = agg_min (int_column ''kWh'' d) (building_vals d k)"
  "cellv (stats_row d k) ''max_kWh'' = agg_max (int_column ''kWh'' d) (building_vals d k)"
  "cellv (stats_row d k) ''total_kWh'' = agg_sum (int_column ''kWh'' d) (building_vals d k)"
  "idx (stats_row d k) = k"
  by (simp_all add: cellv_def stats_row_def)

lemma agg_sum_not_NA: "agg_sum it vs \<noteq> NA"
  by (simp add: agg_sum_def)

lemma rows_summary:
  assumes "combined_table d" and "summary_of L d = Inr st"
  shows "rows st = rev (np_sort L (\<lambda>r. cell_rank (cellv r ''total_kWh''))
                 (rev (map (stats_row d) (group_keys ''Building'' (rows d)))))
     \<and> columns st = [''mean_kWh'', ''min_kWh'', ''max_kWh'', ''total_kWh'']"
proof -
  let ?base = "\<lparr>columns = [''mean_kWh'', ''min_kWh'', ''max_kWh'', ''total_kWh''],
            rows = map (stats_row d) (group_keys ''Building'' (rows d))\<rparr>"
  have st': "st = sort_values L ''total_kWh'' False ?base"
    using assms(2) summary_of_combined[OF assms(1), of L] by simp
  have "\<forall>r \<in> set (rows ?base). cellv r ''total_kWh'' \<noteq> NA"
    by (auto simp: cellv_stats_row agg_sum_not_NA)
  from sort_values_desc_all_present[OF this, of L] st' show ?thesis
    by (simp add: sort_values_def Let_def)
qed

text \<open>The cells of the row of a building in the summary of a table that ingestion returns.\<close>

lemma stats_row_cells:
  assumes ct: "combined_table d" and k: "k \<in> set (group_keys ''Building'' (rows d))"
  shows "building_vals d k \<noteq> []
     \<and> cellv (stats_row d k) ''mean_kWh'' =
         Num (sum_list (building_vals d k) / of_nat (length (building_vals d k)))
     \<and> numval (cellv (stats_row d k) ''min_kWh'') = Some (Min (set (building_vals d k)))
     \<and> numval (cellv (stats_row d k) ''max_kWh'') = Some (Max (set (building_vals d k)))
     \<and> cellv (stats_row d k) ''total_kWh'' =
         (if int_column ''kWh'' d then I64 (wrap64 \<lfloor>sum_list (building_vals d k)\<rfloor>)
          else Num (sum_list (building_vals d k)))
     \<and> (- (2 ^ 63) \<le> sum_list (building_vals d k) \<and> sum_list (building_vals d k) < 2 ^ 63 \<longrightarrow>
          total_of (stats_row d k) = sum_list (building_vals d k))
     \<and> (\<not> int_column ''kWh'' d \<longrightarrow> total_of (stats_row d k) = sum_list (building_vals d k))
     \<and> (\<exists>v. numval (cellv (stats_row d k) ''total_kWh'') = Some v)"
proof -
  let ?vs = "building_vals d k"
  let ?it = "int_column ''kWh'' d"
  have nz: "?vs \<noteq> []" by (rule building_vals_nonempty[OF ct k])
  have ints: "v \<in> \<int>" if "?it" "v \<in> set ?vs" for v
    using that by (rule int_column_vals)
  have mn: "Min (set ?vs) \<in> set ?vs" "Max (set ?vs) \<in> set ?vs"
    using nz by (simp_all add: Min_in Max_in)
  have a: "numval (cellv (stats_row d k) ''min_kWh'') = Some (Min (set ?vs))"
    using nz ints mn by (simp add: cellv_stats_row agg_min_Min numval_as_dtype)
  have b: "numval (cellv (stats_row d k) ''max_kWh'') = Some (Max (set ?vs))"
    using nz ints mn by (simp add: cellv_stats_row agg_max_Max numval_as_dtype)
  have si: "sum_list ?vs \<in> \<int>" if "?it"
    using ints[OF that] by (rule sum_list_Ints)
  have fl: "of_int \<lfloor>sum_list ?vs\<rfloor> = sum_list ?vs" if "?it"
    using si[OF that] by (simp add: of_int_floor_cancel[symmetric] del: of_int_floor_cancel)
  have c: "total_of (stats_row d k) = sum_list ?vs"
    if r: "- (2 ^ 63) \<le> sum_list ?vs" "sum_list ?vs < 2 ^ 63"
  proof (cases ?it)
    case True
    have "- (2 ^ 63) \<le> \<lfloor>sum_list ?vs\<rfloor>" "\<lfloor>sum_list ?vs\<rfloor> < 2 ^ 63"
      using r by (simp_all add: le_floor_iff floor_less_iff)
    then have "wrap64 \<lfloor>sum_list ?vs\<rfloor> = \<lfloor>sum_list ?vs\<rfloor>" by (rule wrap64_in_range)
    with True fl show ?thesis
      by (simp add: total_of_def cellv_stats_row agg_sum_def)
  next
    case False
    then show ?thesis by (simp add: total_of_def cellv_stats_row agg_sum_def)
  qed
  have e: "total_of (stats_row d k) = sum_list ?vs" if "\<not> ?it"
    using that by (simp add: total_of_def cellv_stats_row agg_sum_def)
  have f: "\<exists>v. numval (cellv (stats_row d k) ''total_kWh'') = Some v"
    by (simp add: cellv_stats_row agg_sum_def)
  show ?thesis
    using nz a b c e f by (simp add: cellv_stats_row agg_mean_def agg_sum_def)
qed

text \<open>
  On the table of whole numbers in which building A has the value \<open>2 ^ 63 - 1\<close> twice
  and building B the value 5, the total of A is \<open>- 2\<close>, not the sum
  18446744073709551614 of its values, and B comes before A although the sum of A is the
  greater one.
\<close>

theorem summary_statistics_by_building_counterexample:
  "calculate_summary_statistics demo_lib big_manager big_state =
     Inr (big_manager\<lparr>summary_stats := Some (DataFrame
            \<lparr>columns = [''mean_kWh'', ''min_kWh'', ''max_kWh'', ''total_kWh''],
             rows = [\<lparr>idx = Str ''B'',
                      cells = [(''mean_kWh'', Num 5), (''min_kWh'', I64 5),
                               (''max_kWh'', I64 5), (''total_kWh'', I64 5)]\<rparr>,
                     \<lparr>idx = Str ''A'',
                      cells = [(''mean_kWh'', Num 9223372036854775807),
                               (''min_kWh'', I64 9223372036854775807),
                               (''max_kWh'', I64 9223372036854775807),
                               (''total_kWh'', I64 (- 2))]\<rparr>]\<rparr>)\<rparr>,
          log_event INFO (SummaryDone 2) big_state)
   \<and> sum_list (building_vals big_table (Str ''A'')) = 18446744073709551614
   \<and> sum_list (building_vals big_table (Str ''B'')) = 5"
  by code_simp

text \<open>
  Claim C1, as the code has it. On a table that is not empty and has the form ingestion
  gives its result, \<open>calculate_summary_statistics\<close> returns one row for every building
  of the table, each building once; the row of a building holds the mean, the least and
  the greatest of the building's values and their sum as the type of the column
  computes it: the exact sum for a floating-point column, and for a column of whole
  numbers (\<open>int64\<close>) the sum wrapped around into the range from \<open>- 2 ^ 63\<close> to
  \<open>2 ^ 63 - 1\<close>, which is the exact sum whenever that lies in the range. The rows are
  in descending order of that total. On the table with building A (values 10 and 20)
  and building B (value 5) the result is A with mean 15, min 10, max 20, sum 30, then B
  with 5, 5, 5, 5.
\<close>

theorem summary_statistics_by_building:
  "(\<not> is_empty (objects s ! df m) \<and> combined_table (objects s ! df m) \<and> sorts (quicksort L) \<longrightarrow>
      (\<exists>st. calculate_summary_statistics L m s =
               Inr (m\<lparr>summary_stats := Some (DataFrame st)\<rparr>,
                    log_event INFO (SummaryDone (length (rows st))) s)
         \<and> columns st = [''mean_kWh'', ''min_kWh'', ''max_kWh'', ''total_kWh'']
         \<and> distinct (map idx (rows st))
         \<and> set (map idx (rows st)) =
             {cellv r ''Building'' | r. r \<in> set (rows (objects s ! df m))} - {NA}
         \<and> (\<forall>g \<in> set (rows st).
               building_vals (objects s ! df m) (idx g) \<noteq> []
             \<and> cellv g ''mean_kWh'' =
                 Num (sum_list (building_vals (objects s ! df m) (idx g))
                        / of_nat (length (building_vals (objects s ! df m) (idx g))))
             \<and> numval (cellv g ''min_kWh'') = Some (Min (set (building_vals (objects s ! df m) (idx g))))
             \<and> numval (cellv g ''max_kWh'') = Some (Max (set (building_vals (objects s ! df m) (idx g))))
             \<and> cellv g ''total_kWh'' =
                 (if int_column ''kWh'' (objects s ! df m)
                  then I64 (wrap64 \<lfloor>sum_list (building_vals (objects s ! df m) (idx g))\<rfloor>)
                  else Num (sum_list (building_vals (objects s ! df m) (idx g))))
             \<and> (- (2 ^ 63) \<le> sum_list (building_vals (objects s ! df m) (idx g))
                  \<and> sum_list (building_vals (objects s ! df m) (idx g)) < 2 ^ 63 \<longrightarrow>
                  total_of g = sum_list (building_vals (objects s ! df m) (idx g)))
             \<and> (\<not> int_column ''kWh'' (objects s ! df m) \<longrightarrow>
                  total_of g = sum_list (building_vals (objects s ! df m) (idx g))))
         \<and> sorted_wrt (\<lambda>g h. total_of h \<le> total_of g) (rows st)))
   \<and> calculate_summary_statistics demo_lib demo_manager demo_state =
       Inr (demo_manager\<lparr>summary_stats := Some (DataFrame demo_stats)\<rparr>,
            log_event INFO (SummaryDone 2) demo_state)
   \<and> building_vals demo_table (Str ''A'') = [10, 20]
   \<and> building_vals demo_table (Str ''B'') = [5]"
proof -
  let ?d = "objects s ! df m"
  let ?keys = "group_keys ''Building'' (rows ?d)"
  let ?K = "\<lambda>r. cell_rank (cellv r ''total_kWh'')"
  let ?each = "\<lambda>g. building_vals ?d (idx g) \<noteq> []
             \<and> cellv g ''mean_kWh'' =
                 Num (sum_list (building_vals ?d (idx g)) / of_nat (length (building_vals ?d (idx g))))
             \<and> numval (cellv g ''min_kWh'') = Some (Min (set (building_vals ?d (idx g))))
             \<and> numval (cellv g ''max_kWh'') = Some (Max (set (building_vals ?d (idx g))))
             \<and> cellv g ''total_kWh'' =
                 (if int_column ''kWh'' ?d then I64 (wrap64 \<lfloor>sum_list (building_vals ?d (idx g))\<rfloor>)
                  else Num (sum_list (building_vals ?d (idx g))))
             \<and> (- (2 ^ 63) \<le> sum_list (building_vals ?d (idx g))
                  \<and> sum_list (building_vals ?d (idx g)) < 2 ^ 63 \<longrightarrow>
                  total_of g = sum_list (building_vals ?d (idx g)))
             \<and> (\<not> int_column ''kWh'' ?d \<longrightarrow> total_of g = sum_list (building_vals ?d (idx g)))"
  have general: "\<exists>st. calculate_summary_statistics L m s =
               Inr (m\<lparr>summary_stats := Some (DataFrame st)\<rparr>,
                    log_event INFO (SummaryDone (length (rows st))) s)
         \<and> columns st = [''mean_kWh'', ''min_kWh'', ''max_kWh'', ''total_kWh'']
         \<and> distinct (map idx (rows st))
         \<and> set (map idx (rows st)) = {cellv r ''Building'' | r. r \<in> set (rows ?d)} - {NA}
         \<and> (\<forall>g \<in> set (rows st). ?each g)
         \<and> sorted_wrt (\<lambda>g h. total_of h \<le> total_of g) (rows st)"
    if ne: "\<not> is_empty ?d" and ct: "combined_table ?d" and srt: "sorts (quicksort L)"
  proof -
    obtain st where st: "summary_of L ?d = Inr st"
      using summary_of_combined[OF ct] by blast
    note rs = rows_summary[OF ct st]
    have run: "calculate_summary_statistics L m s =
               Inr (m\<lparr>summary_stats := Some (DataFrame st)\<rparr>,
                    log_event INFO (SummaryDone (length (rows st))) s)"
      using ne st by (simp add: calculate_summary_statistics_def Let_def)
    have set_rows: "set (rows st) = stats_row ?d ` set ?keys"
      using rs by (simp add: np_sort_set[OF srt])
    have "map idx (map (stats_row ?d) ?keys) = ?keys"
      by (simp add: comp_def cellv_stats_row)
    then have dist: "distinct (map idx (rows st))"
      using rs distinct_group_keys[of "''Building''" "rows ?d"]
      by (simp add: distinct_map_desc_sort[OF srt])
    have idxs: "set (map idx (rows st)) = {cellv r ''Building'' | r. r \<in> set (rows ?d)} - {NA}"
      using set_rows set_group_keys[of "''Building''" "rows ?d"]
      by (simp add: image_image cellv_stats_row)
    have key: "\<exists>k. k \<in> set ?keys \<and> g = stats_row ?d k" if "g \<in> set (rows st)" for g
      using that set_rows by auto
    have each: "?each g" if g: "g \<in> set (rows st)" for g
    proof -
      from key[OF g] obtain k where k: "k \<in> set ?keys" "g = stats_row ?d k" by blast
      from stats_row_cells[OF ct k(1)] show ?thesis
        by (simp add: k(2) cellv_stats_row(5))
    qed
    have tot: "\<exists>v. numval (cellv g ''total_kWh'') = Some v" if g: "g \<in> set (rows st)" for g
    proof -
      from key[OF g] obtain k where k: "k \<in> set ?keys" "g = stats_row ?d k" by blast
      from stats_row_cells[OF ct k(1)] show ?thesis by (simp add: k(2))
    qed
    have "sorted_wrt (\<lambda>a b. ?K b \<le> ?K a) (rows st)"
      using rs sorted_desc_sort[OF srt, of ?K] by simp
    then have desc: "sorted_wrt (\<lambda>g h. total_of h \<le> total_of g) (rows st)"
    proof (rule sorted_wrt_mono_rel[rotated])
      fix g h assume gh: "g \<in> set (rows st)" "h \<in> set (rows st)" and le: "?K h \<le> ?K g"
      from tot[OF gh(1)] obtain x where x: "numval (cellv g ''total_kWh'') = Some x" by blast
      from tot[OF gh(2)] obtain y where y: "numval (cellv h ''total_kWh'') = Some y" by blast
      from le rank_le_numval[OF y x] have "y \<le> x" by simp
      then show "total_of h \<le> total_of g" by (simp add: total_of_def x y)
    qed
    from run rs dist idxs each desc show ?thesis by blast
  qed
  have ex1: "calculate_summary_statistics demo_lib demo_manager demo_state =
       Inr (demo_manager\<lparr>summary_stats := Some (DataFrame demo_stats)\<rparr>,
            log_event INFO (SummaryDone 2) demo_state)"
    by code_simp
  have ex2: "building_vals demo_table (Str ''A'') = [10, 20]" by code_simp
  have ex3: "building_vals demo_table (Str ''B'') = [5]" by code_simp
  from general ex1 ex2 ex3 show ?thesis by blast
qed

theorem summary_statistics_by_building_witness:
  "\<not> is_empty (objects demo_state ! df demo_manager)
   \<and> combined_table (objects demo_state ! df demo_manager)
   \<and> sorts (quicksort demo_lib)
   \<and> (\<exists>st. calculate_summary_statistics demo_lib demo_manager demo_state =
               Inr (demo_manager\<lparr>summary_stats := Some (DataFrame st)\<rparr>,
                    log_event INFO (SummaryDone (length (rows st))) demo_state)
         \<and> distinct (map idx (rows st))
         \<and> columns st = [''mean_kWh'', ''min_kWh'', ''max_kWh'', ''total_kWh'']
         \<and> sorted_wrt (\<lambda>g h. total_of h \<le> total_of g) (rows st))"
proof -
  have h1: "\<not> is_empty (objects demo_state ! df demo_manager)" by code_simp
  have h2: "combined_table (objects demo_state ! df demo_manager)" by code_simp
  note h3 = sorts_demo_lib
  from summary_statistics_by_building[of demo_state demo_manager demo_lib] h1 h2 h3
  show ?thesis by blast
qed

subsection \<open>Time trends\<close>

lemma filter_unique_key:
  assumes "distinct (map f xs)" and "r \<in> set xs"
  shows "filter (\<lambda>x. f x = f r) xs = [r]"
  using assms
proof (induction xs)
  case Nil
  then show ?case by simp
next
  case (Cons x xs)
  show ?case
  proof (cases "x = r")
    case True
    have "f r \<notin> f ` set xs"
      using Cons.prems(1) True by simp
    then have "\<forall>y \<in> set xs. f y \<noteq> f r"
      by (metis image_eqI)
    then have "filter (\<lambda>y. f y = f r) xs = []"
      by (simp add: filter_empty_conv)
    with True show ?thesis by simp
  next
    case False
    with Cons.prems have r: "r \<in> set xs" and "f x \<noteq> f r" by auto
    with Cons show ?thesis by simp
  qed
qed

text \<open>
  When no two rows of a group share an index label, the function applied to the group
  returns one row: the hour and the value of the first row, in table order, that has
  the greatest value of the group.
\<close>

lemma peak_of_group_unique:
  assumes ne: "g \<noteq> []"
    and num: "\<forall>r \<in> set g. \<exists>v. numval (cellv r ''kWh'') = Some v"
    and uniq: "distinct (map idx g)"
  shows "\<exists>r rest. filter (\<lambda>r. numval (cellv r ''kWh'') = Some (Max (set (num_vals ''kWh'' g)))) g = r # rest
           \<and> peak_of_group g = Inr (OneRow (cellv r ''Hour'', cellv r ''kWh''))"
proof -
  let ?vs = "num_vals ''kWh'' g"
  let ?P = "\<lambda>r. numval (cellv r ''kWh'') = Some (Max (set ?vs))"
  from ne obtain r0 where "r0 \<in> set g" by (cases g) auto
  with num have "?vs \<noteq> []" by (force simp: num_vals_def)
  then obtain v ws where vs: "?vs = v # ws" by (cases ?vs) auto
  have mx: "fold max ws v = Max (set ?vs)"
    using Max.set_eq_fold[of v ws] vs by simp
  have "Max (set ?vs) \<in> set ?vs"
    using vs by (intro Max_in) auto
  then obtain rm where "rm \<in> set g" "?P rm"
    by (auto simp: num_vals_def split: option.splits)
  then have "filter ?P g \<noteq> []"
    by (auto simp: filter_empty_conv)
  then obtain r rest where f: "filter ?P g = r # rest"
    by (cases "filter ?P g") auto
  then have "r \<in> set (filter ?P g)" by simp
  then have r: "r \<in> set g" by auto
  have im: "idxmax ''kWh'' g = Inr (idx r)"
    using vs f mx by (simp add: idxmax_def)
  have "filter (\<lambda>x. idx x = idx r) g = [r]"
    by (rule filter_unique_key[OF uniq r])
  then have "loc (idx r) g = Inr (OneRow (cellv r ''Hour'', cellv r ''kWh''))"
    by (simp add: loc_def)
  with im have "peak_of_group g = Inr (OneRow (cellv r ''Hour'', cellv r ''kWh''))"
    by (simp add: peak_of_group_def)
  with f show ?thesis by blast
qed

text \<open>
  Claim C5. The peak-hour proxy is meant to give, for each building, the hour and the
  value of the single row with the greatest value. The code selects that row by its
  index label, the timestamp, so on a table in which building A has two readings at the
  same timestamp, 5 and then 10, the whole pipeline returns for A both rows, the one
  with value 5 included, instead of the single row with value 10.
\<close>

theorem peak_hours_duplicate_timestamp:
  "results (pipeline demo_lib (Dir dup_dir) \<lparr>objects = [], logs = []\<rparr>) =
     Inr (Some (DataFrame
            \<lparr>columns = [''mean_kWh'', ''min_kWh'', ''max_kWh'', ''total_kWh''],
             rows = [\<lparr>idx = Str ''A'',
                      cells = [(''mean_kWh'', Num (15 / 2)), (''min_kWh'', I64 5),
                               (''max_kWh'', I64 10), (''total_kWh'', I64 15)]\<rparr>]\<rparr>),
          Some (DailySeries [(1704067200000000000, I64 15)]),
          Some (WeeklyFrame \<lparr>wcolumns = [Str ''A''], wrows = [(1704585600000000000, [Num (15 / 2)])]\<rparr>),
          Some (PeakFrame [(Str ''A'', ManyRows [(I64 10, I64 5), (I64 10, I64 10)])]))"
  by code_simp

text \<open>
  On the manager built on an empty table, the peak-hour field is \<open>None\<close> after
  \<open>calculate_time_trends\<close>, not an empty table; the other two fields are empty tables.
\<close>

theorem time_trends_empty_table_counterexample:
  "results (calculate_time_trends empty_manager empty_state) =
     Inr (None, Some (DataFrame empty_frame), Some (DataFrame empty_frame), None)"
  by code_simp

text \<open>
  Claim C6, as the code has it. On an empty table \<open>calculate_time_trends\<close> does not
  raise: the one guard at its start sets the daily totals and the weekly means to empty
  tables, logs a warning and returns. The peak-hour proxy is not computed there and its
  field keeps the value it had, which is \<open>None\<close> on a manager that \<open>__init__\<close> has
  just built.
\<close>

theorem time_trends_empty_table:
  "(is_empty (objects s ! df m) \<longrightarrow>
     calculate_time_trends m s =
       Inr (m\<lparr>daily_totals := Some (DataFrame empty_frame),
              weekly_avg_by_building := Some (DataFrame empty_frame)\<rparr>,
            log_event WARNING EmptyTrends s)
     \<and> peak_hours_by_building
          (m\<lparr>daily_totals := Some (DataFrame empty_frame),
             weekly_avg_by_building := Some (DataFrame empty_frame)\<rparr>) = peak_hours_by_building m)
   \<and> peak_hours_by_building (fst (init a s0)) = None"
  by (simp add: calculate_time_trends_def init_def copy_def Let_def)

theorem time_trends_empty_table_witness:
  "is_empty (objects empty_state ! df empty_manager)
   \<and> calculate_time_trends empty_manager empty_state =
       Inr (empty_manager\<lparr>daily_totals := Some (DataFrame empty_frame),
              weekly_avg_by_building := Some (DataFrame empty_frame)\<rparr>,
            log_event WARNING EmptyTrends empty_state)
   \<and> peak_hours_by_building empty_manager = None"
proof -
  have h: "is_empty (objects empty_state ! df empty_manager)" by code_simp
  have n: "peak_hours_by_building empty_manager = None" by code_simp
  from time_trends_empty_table[of empty_state empty_manager] h n show ?thesis by simp
qed

subsection \<open>Two runs\<close>





subsection \<open>The store\<close>

text \<open>
  Claim C8. Building the manager copies the table: the new object has the contents of
  the caller's table at another address, and every table of the store, the caller's
  included, is as it was. A call of \<open>calculate_summary_statistics\<close> or of
  \<open>calculate_time_trends\<close> that returns leaves every table that was in the store as it
  was, the manager's own table and the caller's among them, and the manager refers to
  the same table; the \<open>Hour\<close> column goes to a new copy.
\<close>

theorem aggregation_leaves_table_unchanged:
  "(a < length (objects s0) \<longrightarrow>
      take (length (objects s0)) (objects (snd (init a s0))) = objects s0
    \<and> df (fst (init a s0)) \<noteq> a
    \<and> df (fst (init a s0)) < length (objects (snd (init a s0)))
    \<and> objects (snd (init a s0)) ! df (fst (init a s0)) = objects s0 ! a
    \<and> objects (snd (init a s0)) ! a = objects s0 ! a)
   \<and> (calculate_summary_statistics L m s = Inr (m', s') \<longrightarrow>
        objects s' = objects s \<and> df m' = df m)
   \<and> (df m < length (objects s) \<and> calculate_time_trends m s = Inr (m', s') \<longrightarrow>
        take (length (objects s)) (objects s') = objects s \<and> df m' = df m
      \<and> objects s' ! df m' = objects s ! df m)"
proof -
  have i: "take (length (objects s0)) (objects (snd (init a s0))) = objects s0
    \<and> df (fst (init a s0)) \<noteq> a
    \<and> df (fst (init a s0)) < length (objects (snd (init a s0)))
    \<and> objects (snd (init a s0)) ! df (fst (init a s0)) = objects s0 ! a
    \<and> objects (snd (init a s0)) ! a = objects s0 ! a" if "a < length (objects s0)"
    using that by (simp add: init_def copy_def nth_append)
  have su: "objects s' = objects s \<and> df m' = df m"
    if "calculate_summary_statistics L m s = Inr (m', s')"
    using that
    by (auto simp: calculate_summary_statistics_def Let_def log_event_def split: if_splits sum.splits)
  have tt: "take (length (objects s)) (objects s') = objects s \<and> df m' = df m
      \<and> objects s' ! df m' = objects s ! df m"
    if b: "df m < length (objects s)" and r: "calculate_time_trends m s = Inr (m', s')"
  proof (cases "is_empty (objects s ! df m)")
    case True
    with r show ?thesis
      by (auto simp: calculate_time_trends_def Let_def log_event_def)
  next
    case False
    with r b show ?thesis
      by (auto simp: calculate_time_trends_def Let_def log_event_def copy_def nth_append
          split: sum.splits)
  qed
  from i su tt show ?thesis by blast
qed

theorem aggregation_leaves_table_unchanged_witness:
  "(0::nat) < length (objects \<lparr>objects = [demo_table], logs = []\<rparr>)
   \<and> objects demo_state ! 0 = demo_table
   \<and> objects demo_state ! df demo_manager = demo_table
   \<and> df demo_manager < length (objects demo_state)
   \<and> calculate_time_trends demo_manager demo_state =
       Inr (projr (calculate_time_trends demo_manager demo_state))
   \<and> take 2 (objects (snd (projr (calculate_time_trends demo_manager demo_state)))) = [demo_table, demo_table]
   \<and> calculate_summary_statistics demo_lib demo_manager demo_state =
       Inr (projr (calculate_summary_statistics demo_lib demo_manager demo_state))
   \<and> objects (snd (projr (calculate_summary_statistics demo_lib demo_manager demo_state))) = [demo_table, demo_table]"
proof -
  let ?s0 = "\<lparr>objects = [demo_table], logs = []\<rparr>"
  let ?t = "projr (calculate_time_trends demo_manager demo_state)"
  let ?u = "projr (calculate_summary_statistics demo_lib demo_manager demo_state)"
  have h0: "(0::nat) < length (objects ?s0)" by simp
  have h1: "df demo_manager < length (objects demo_state)" by code_simp
  have h2: "calculate_time_trends demo_manager demo_state = Inr (fst ?t, snd ?t)" by code_simp
  have h3: "calculate_summary_statistics demo_lib demo_manager demo_state = Inr (fst ?u, snd ?u)" by code_simp
  have o: "objects demo_state = [demo_table, demo_table]" by code_simp
  have l: "length (objects demo_state) = 2" by (simp add: o)
  note a = aggregation_leaves_table_unchanged[of 0 ?s0 demo_lib demo_manager demo_state "fst ?u" "snd ?u"]
  note b = aggregation_leaves_table_unchanged[of 0 ?s0 demo_lib demo_manager demo_state "fst ?t" "snd ?t"]
  from a h0 have i: "objects demo_state ! 0 = demo_table"
    "objects demo_state ! df demo_manager = demo_table"
    by (simp_all add: demo_state_def demo_manager_def)
  from a h1 h3 have s: "objects (snd ?u) = [demo_table, demo_table]" by (simp add: o)
  from b h1 h2 have t: "take 2 (objects (snd ?t)) = [demo_table, demo_table]"
    by (simp add: o numeral_2_eq_2)
  from h0 h1 h2 h3 i s t show ?thesis by simp
qed

subsection \<open>The gradebook\<close>

lemma written_indent: "\<not> indent_ok (body_indent written_guard)"
  by code_simp

lemma name_unbound:
  "lookup_name (fold bind gradebook_statements module_namespace) ''_name_'' = Inl (NameError ''_name_'')"
  by code_simp

lemma name_bound:
  "lookup_name (fold bind gradebook_statements module_namespace) ''__name__'' = Inr (VStr ''__main__'')"
  by code_simp

lemma main_bound:
  "lookup_name (fold bind gradebook_statements module_namespace) ''main'' = Inr (VFun ''main'')"
  by code_simp

text \<open>
  Claim C9. The file does not compile: the call \<open>main()\<close> on its last line is indented
  with four no-break spaces, which Python refuses as a \<open>SyntaxError\<close> before any
  statement of the module runs. So whatever the standard input holds, the run ends
  with \<open>SyntaxError\<close> and prints nothing: no banner and no menu.
\<close>

theorem gradebook_guard_raises:
  "run_gradebook h inp = ([], Some SyntaxError)"
  by (simp add: run_gradebook_def run_script_def written_indent)

text \<open>
  The last statement has a second slip. With the last line indented by four spaces
  the file compiles, and the run ends with \<open>NameError\<close> at the test, before \<open>main\<close> is
  called: \<open>_name_\<close> is bound neither by the module nor among the builtins. With the
  guard \<open>if __name__ == "__main__":\<close> and an indentation of spaces, the script runs
  \<open>main\<close>, whose menu ends on the choice 4 and raises \<open>EOFError\<close> when the input ends
  first.
\<close>

lemma spaces_guard_raises:
  "run_script (written_guard\<lparr>body_indent := ''    ''\<rparr>) h inp = ([], Some (NameError ''_name_''))"
  by (simp add: run_script_def written_guard_def indent_ok_def name_unbound)

lemma dunder_guard_runs_main:
  "run_script \<lparr>tested = ''__name__'', literal = ''__main__'', body_indent = ''    ''\<rparr> h inp = main h inp"
  by (simp add: run_script_def indent_ok_def name_bound main_bound)

lemma dunder_guard_written_indent:
  "run_script \<lparr>tested = ''__name__'', literal = ''__main__'', body_indent = body_indent written_guard\<rparr> h inp
     = ([], Some SyntaxError)"
  by (simp add: run_script_def written_indent)

lemma main_exit: "strip l = ''4'' \<Longrightarrow> main h (l # rest) = ([''=== GRADEBOOK ANALYZER ===''] @ menu @ [''Goodbye!''], None)"
  by (simp add: main_def)

lemma main_end_of_input: "main h [] = ([''=== GRADEBOOK ANALYZER ===''] @ menu, Some EOFError)"
  by (simp add: main_def)

subsection \<open>The calorie tracker\<close>


lemma read_meals_length:
  "read_meals pf n inp = Inr (ms, rest) \<Longrightarrow> length ms = n"
proof (induction pf n inp arbitrary: ms rest rule: read_meals.induct)
  case (1 pf inp)
  then show ?case by simp
next
  case (2 pf n)
  then show ?case by simp
next
  case (3 pf n l inp)
  from "3.prems" obtain meal cal c ms' where
    sp: "split_on CHR '','' (strip l) = [meal, cal]" and c: "pf (strip cal) = Some c"
    and rec: "read_meals pf n inp = Inr (ms', rest)" and ms: "ms = (upper (strip meal), c) # ms'"
    by (auto split: list.splits option.splits sum.splits)
  from "3.IH"[OF sp refl refl c rec] ms show ?case by simp
qed

lemma averages_append: "averages (xs @ ys) = averages xs @ averages ys"
  by (simp add: averages_def)

lemma averages_Nil: "averages [] = []"
  by (simp add: averages_def)

lemma averages_Cons:
  "averages (p # ps) = (case p of AverageLine a \<Rightarrow> [a] | _ \<Rightarrow> []) @ averages ps"
  by (simp add: averages_def)

lemma averages_table_rows: "averages (table_rows ms) = []"
  by (auto simp: averages_def table_rows_def)

text \<open>
  Claim C10. When the number of meals entered is at least one and the meals are read,
  the tracker prints one average, the sum of the calories divided by the number of
  meals, and does not end with a division by zero. When the number entered is zero (or
  negative, which reads no meal either), the run ends with \<open>ZeroDivisionError\<close> after
  the empty table and prints no average: nothing guards the divisor.
\<close>

theorem tracker_average_unguarded:
  "(p_int l1 = Some n \<and> 0 < n \<and> pf l2 = Some limit
      \<and> read_meals pf (nat n) rest = Inr (meals, in3) \<longrightarrow>
        length meals = nat n
      \<and> averages (fst (tracker p_int pf w (l1 # l2 # rest))) =
          [sum_list (map snd meals) / of_nat (length meals)]
      \<and> snd (tracker p_int pf w (l1 # l2 # rest)) \<noteq> Some ZeroDivisionError)
   \<and> (p_int l1 = Some k \<and> k \<le> 0 \<and> pf l2 = Some limit \<longrightarrow>
        tracker p_int pf w (l1 # l2 # rest) = ([Banner, TableHead, TableFoot], Some ZeroDivisionError)
      \<and> averages (fst (tracker p_int pf w (l1 # l2 # rest))) = [])"
proof -
  have pos: "length meals = nat n
      \<and> averages (fst (tracker p_int pf w (l1 # l2 # rest))) =
          [sum_list (map snd meals) / of_nat (length meals)]
      \<and> snd (tracker p_int pf w (l1 # l2 # rest)) \<noteq> Some ZeroDivisionError"
    if h: "p_int l1 = Some n" "0 < n" "pf l2 = Some limit"
      "read_meals pf (nat n) rest = Inr (meals, in3)"
  proof -
    have len: "length meals = nat n" by (rule read_meals_length[OF h(4)])
    with h(2) have ne: "meals \<noteq> []" by auto
    show ?thesis
      using h ne len
      by (cases in3)
         (auto simp: tracker_def Let_def averages_append averages_Cons averages_Nil
            averages_table_rows)
  qed
  have zero: "tracker p_int pf w (l1 # l2 # rest) = ([Banner, TableHead, TableFoot], Some ZeroDivisionError)
      \<and> averages (fst (tracker p_int pf w (l1 # l2 # rest))) = []"
    if h: "p_int l1 = Some k" "k \<le> 0" "pf l2 = Some limit"
    using h by (simp add: tracker_def table_rows_def averages_Cons averages_Nil)
  from pos zero show ?thesis by blast
qed

theorem tracker_average_unguarded_witness:
  "demo_int ''2'' = Some 2 \<and> (0::int) < 2 \<and> demo_float ''100'' = Some 100
   \<and> read_meals demo_float (nat 2) [''rice, 50'', '' egg ,120.5'', ''yes''] =
        Inr ([(''RICE'', 50), (''EGG'', 241 / 2)], [''yes''])
   \<and> averages (fst (tracker demo_int demo_float True [''2'', ''100'', ''rice, 50'', '' egg ,120.5'', ''yes''])) =
        [341 / 4]
   \<and> demo_int ''0'' = Some 0
   \<and> tracker demo_int demo_float True [''0'', ''100'', ''yes''] =
        ([Banner, TableHead, TableFoot], Some ZeroDivisionError)"
proof -
  have h1: "demo_int ''2'' = Some 2" by code_simp
  have h2: "demo_float ''100'' = Some 100" by code_simp
  have h3: "read_meals demo_float (nat 2) [''rice, 50'', '' egg ,120.5'', ''yes''] =
        Inr ([(''RICE'', 50), (''EGG'', 241 / 2)], [''yes''])" by code_simp
  have h4: "demo_int ''0'' = Some 0" by code_simp
  from tracker_average_unguarded[of demo_int "''2''" 2 demo_float "''100''" 100
      "[''rice, 50'', '' egg ,120.5'', ''yes'']" "[(''RICE'', 50), (''EGG'', 241 / 2)]" "[''yes'']" True 0]
    h1 h2 h3
  have a: "averages (fst (tracker demo_int demo_float True [''2'', ''100'', ''rice, 50'', '' egg ,120.5'', ''yes''])) =
        [341 / 4]"
    by simp
  from tracker_average_unguarded[of demo_int "''0''" 2 demo_float "''100''" 100
      "[''yes'']" "[]" "[]" True 0] h4 h2
  have b: "tracker demo_int demo_float True [''0'', ''100'', ''yes''] =
        ([Banner, TableHead, TableFoot], Some ZeroDivisionError)"
    by simp
  from h1 h2 h3 h4 a b show ?thesis by simp
qed

end
